theory Spec2Isabelle
  imports Complex_Main
begin

section \<open>OsmoseCracker: report correlation and emission\<close>

text \<open>
  A shallow embedding of the report emission and status refresh code of OsmoseCracker:
  \<^item> \<^verbatim>\<open>osmosecracker_espacecollaboratifign.py\<close>: \<^verbatim>\<open>post_signalement\<close>,
    \<^verbatim>\<open>get_status_signalement\<close>;
  \<^item> \<^verbatim>\<open>osmosecracker_database_management.py\<close>: \<^verbatim>\<open>update_signalement\<close>,
    \<^verbatim>\<open>_issue_row_to_issue_instance\<close> and the two selections read by \<^verbatim>\<open>main\<close>;
  \<^item> \<^verbatim>\<open>osmosecracker_query_bduni.py\<close>: the correlation loops of \<^verbatim>\<open>clustering\<close>;
  \<^item> \<^verbatim>\<open>osmosecracker.py\<close>: the two loops of \<^verbatim>\<open>main\<close> (lines 519-584 and 599-608).

  Exceptions are values of type \<open>error\<close>; a function that can raise returns
  \<open>error + 'a\<close>. The remote services are parameters: a function from the number of the
  call and the request to the reply, so that every behaviour of a service is an input.
  What SQLite does with a statement that the embedding does not read is a parameter too.
\<close>

subsection \<open>Exceptions\<close>

datatype error =
    EspaceCoException     \<comment> \<open>\<^verbatim>\<open>osmosecracker_exceptions.EspaceCoException\<close>\<close>
  | AttributeError        \<comment> \<open>\<^verbatim>\<open>exc.message\<close> on an exception without it, \<^verbatim>\<open>None.isoformat()\<close>\<close>
  | TypeError             \<comment> \<open>\<^verbatim>\<open>abs(None)\<close>, unpacking \<^verbatim>\<open>None\<close> after an UPDATE that matched no row\<close>
  | KeyError              \<comment> \<open>a JSON object without the field that is read\<close>
  | JSONDecodeError       \<comment> \<open>\<^verbatim>\<open>req.json()\<close> on a body that is not JSON\<close>
  | ConnectionError       \<comment> \<open>\<^verbatim>\<open>requests.post\<close> raising: time-out, refused connection\<close>
  | Exception             \<comment> \<open>\<^verbatim>\<open>raise Exception(e)\<close> of \<^verbatim>\<open>get_status_signalement\<close>\<close>
  | OperationalError      \<comment> \<open>SQLite refusing the statement\<close>
  | Report_error          \<comment> \<open>\<^verbatim>\<open>markdown_report\<close> raising\<close>

subsection \<open>The reporting service\<close>

text \<open>
  The sketch dictionary that \<^verbatim>\<open>clustering\<close> builds. The geometry and the two coordinates
  are the texts Python's \<^verbatim>\<open>str\<close> gives for the row's values.
\<close>

record sketch =
  sk_desc :: string
  sk_name :: string
  sk_object_type :: string
  sk_object_geometry :: string
  sk_contexte_lat :: string
  sk_contexte_lon :: string
  sk_contexte_zoom :: string

text \<open>
  \<^verbatim>\<open>req_dict\<close> of \<^verbatim>\<open>post_signalement\<close>. The point geometry is kept as its two
  coordinates, since the decimal text of a float is not modelled; the constant fields
  (community, input device, device version) are left out.
\<close>

record post_request =
  rq_lon :: real
  rq_lat :: real
  rq_comment :: string
  rq_status :: string
  rq_theme :: string
  rq_sketch :: "sketch option"

text \<open>
  What \<^verbatim>\<open>requests.post\<close> gives back: it raises, or it returns a response with a status
  code and a body. Of the body the code reads \<^verbatim>\<open>req.json()['id']\<close>: the body is not JSON,
  or a JSON object without \<^verbatim>\<open>id\<close>, or one whose \<^verbatim>\<open>id\<close> is an integer or \<^verbatim>\<open>null\<close>
  (\<open>None\<close>). Other JSON kinds of \<^verbatim>\<open>id\<close> are not modelled.
\<close>

datatype post_body = Not_json | Json_without_id | Json_id "int option"

datatype post_reply = Post_raises | Post_response int post_body

datatype get_body = Get_not_json | Json_without_status | Json_status "string option"

datatype get_reply = Get_raises | Get_response int get_body

definition req_dict ::
  "real \<Rightarrow> real \<Rightarrow> string \<Rightarrow> string \<Rightarrow> string \<Rightarrow> sketch option \<Rightarrow> post_request" where
  "req_dict lon lat message theme type_signalement sketchcontent =
     \<lparr> rq_lon = lon, rq_lat = lat, rq_comment = message,
       rq_status = (if type_signalement = ''repost'' then ''submit'' else type_signalement),
       rq_theme = theme, rq_sketch = sketchcontent \<rparr>"

text \<open>The body of the \<^verbatim>\<open>try\<close> block of \<^verbatim>\<open>post_signalement\<close>, lines 75-85.\<close>

definition post_try :: "post_reply \<Rightarrow> error + int option" where
  "post_try req =
     (case req of
        Post_raises \<Rightarrow> Inl ConnectionError
      | Post_response coderetour body \<Rightarrow>
          (if coderetour = 201 then
             (case body of
                Not_json \<Rightarrow> Inl JSONDecodeError
              | Json_without_id \<Rightarrow> Inl KeyError
              | Json_id createdid \<Rightarrow> Inr createdid)
           else
             (case body of
                Not_json \<Rightarrow> Inl JSONDecodeError
              | _ \<Rightarrow> Inl EspaceCoException)))"

text \<open>
  The handler, lines 86-90: it logs \<^verbatim>\<open>str(exc.message)\<close> and raises \<^verbatim>\<open>exc\<close> again. Only
  \<^verbatim>\<open>EspaceCoException\<close> has the attribute \<^verbatim>\<open>message\<close>; for every other exception reading it
  raises \<^verbatim>\<open>AttributeError\<close>, which is what leaves the function.
\<close>

definition post_except :: "error \<Rightarrow> error" where
  "post_except exc = (if exc = EspaceCoException then exc else AttributeError)"

definition post_signalement ::
  "(post_request \<Rightarrow> post_reply) \<Rightarrow> real \<Rightarrow> real \<Rightarrow> string \<Rightarrow> string \<Rightarrow> string \<Rightarrow>
     sketch option \<Rightarrow> error + int option" where
  "post_signalement http lon lat message theme type_signalement sketchcontent =
     (case post_try (http (req_dict lon lat message theme type_signalement sketchcontent)) of
        Inl exc \<Rightarrow> Inl (post_except exc)
      | Inr createdid \<Rightarrow> Inr createdid)"

text \<open>
  \<^verbatim>\<open>requests.get\<close> on the end point followed by \<^verbatim>\<open>str(signalement)\<close>. The network is
  state: \<open>sent\<close> is the list of the identifiers asked for so far (\<open>None\<close> when the
  caller passes \<^verbatim>\<open>None\<close>, which \<^verbatim>\<open>str\<close> prints as \<^verbatim>\<open>None\<close>), the service answers the
  \<open>n\<close>-th look-up, \<open>n\<close> counted from 0, and the look-up is recorded whatever the answer.
\<close>

definition requests_get ::
  "(nat \<Rightarrow> int option \<Rightarrow> get_reply) \<Rightarrow> int option list \<Rightarrow> int option \<Rightarrow>
     get_reply \<times> int option list" where
  "requests_get service sent signalement =
     (service (length sent) signalement, sent @ [signalement])"

text \<open>
  \<^verbatim>\<open>get_status_signalement\<close>, lines 95-121: what it returns or raises, and the network
  after the call.
\<close>

definition get_status_signalement ::
  "(nat \<Rightarrow> int option \<Rightarrow> get_reply) \<Rightarrow> int option list \<Rightarrow> int option \<Rightarrow>
     (error + string option) \<times> int option list" where
  "get_status_signalement service sent signalement =
     (case requests_get service sent signalement of
        (req, sent') \<Rightarrow>
          ((case req of
              Get_raises \<Rightarrow> Inl Exception
            | Get_response status_code body \<Rightarrow>
                (if status_code = 200 then
                   (case body of
                      Get_not_json \<Rightarrow> Inl JSONDecodeError
                    | Json_without_status \<Rightarrow> Inl KeyError
                    | Json_status s \<Rightarrow> Inr s)
                 else Inr None)),
           sent'))"

subsection \<open>Issues and the durable store\<close>

text \<open>
  An instant of \<^verbatim>\<open>datetime.datetime.now()\<close>. The store keeps its ISO text and reads it
  back; the embedding keeps the instant.
\<close>

type_synonym timestamp = nat

text \<open>
  \<^verbatim>\<open>core_id\<close> is the UUID that Osmose gives an issue, kept as text (\<^verbatim>\<open>uuid=rep['id']\<close> in
  \<^verbatim>\<open>osmosecracker_query_osmose.py\<close>, \<^verbatim>\<open>uuid=str(issueRow["core_id"])\<close> when read back). The
  text of a UUID is made of hexadecimal digits and hyphens; the type keeps of this only
  what the SQL statements depend on: the text holds no quote.
\<close>

typedef uuid = "{s :: string. CHR 0x27 \<notin> set s}"
  morphisms uuid_text Uuid
  by (rule exI [of _ "[]"]) simp

text \<open>
  The attributes of class \<^verbatim>\<open>OsmoseCrackerIssue\<close> that the emission and the refresh code
  read or write. The other attributes (names, administrative units, the classification
  sent to the spatial service) do not reach a decision of that code and are left out.
\<close>

record OsmoseCrackerIssue =
  core_id :: uuid
  core_lat :: real
  core_lon :: real
  details_descriptionstr :: string
  espaceco_theme :: string
  cluster_id :: "string option"
  sketchcontent :: "sketch option"
  espaceco_signalement_id :: "int option"
  espaceco_signalement_status :: "string option"
  espaceco_signalement_status_refresh_timestamp :: "timestamp option"

text \<open>
  A row of table \<^verbatim>\<open>osmoseissue\<close>, with the same selection of columns. A nullable column
  is an option, \<open>None\<close> being SQL \<^verbatim>\<open>NULL\<close>. Column \<^verbatim>\<open>espaceco_signalement_id\<close> is kept
  as the integer that \<^verbatim>\<open>int(issueRow["espaceco_signalement_id"])\<close> reads back. Column \<^verbatim>\<open>bduni_objet_zicad\<close> is declared
  \<^verbatim>\<open>BOOLEAN\<close>: \<^verbatim>\<open>insert\<close> leaves it \<^verbatim>\<open>NULL\<close> for a new issue and \<^verbatim>\<open>update_zicad\<close> writes the
  Python \<^verbatim>\<open>bool\<close> that \<^verbatim>\<open>is_in_zicad\<close> found, so it holds \<^verbatim>\<open>NULL\<close>, false or true. The
  table is the list of its rows; \<^verbatim>\<open>core_id\<close> is declared \<^verbatim>\<open>UNIQUE NOT NULL\<close>.
\<close>

record osmoseissue =
  col_core_id :: uuid
  col_core_lat :: real
  col_core_lon :: real
  col_details_descriptionstr :: "string option"
  col_espaceco_theme :: "string option"
  col_espaceco_signalement_id :: "int option"
  col_espaceco_signalement_status :: "string option"
  col_espaceco_signalement_status_refresh_timestamp :: "timestamp option"
  col_bduni_objet_zicad :: "bool option"

text \<open>Python's \<^verbatim>\<open>str\<close> of a text or of \<^verbatim>\<open>None\<close>, also what \<^verbatim>\<open>format\<close> pastes.\<close>

definition py_str :: "string option \<Rightarrow> string" where
  "py_str v = (case v of None \<Rightarrow> ''None'' | Some s \<Rightarrow> s)"

text \<open>
  \<^verbatim>\<open>_issue_row_to_issue_instance\<close>, lines 1012-1085. The conditional expressions
  \<^verbatim>\<open>int(x) if x else None\<close> and \<^verbatim>\<open>str(x) if x else None\<close> test the truth value of the
  column: a stored 0 and a stored empty text both become \<^verbatim>\<open>None\<close>. The constructor leaves
  \<^verbatim>\<open>cluster_id\<close> and \<^verbatim>\<open>sketchcontent\<close> at \<^verbatim>\<open>None\<close>.
\<close>

definition issue_row_to_issue_instance :: "osmoseissue \<Rightarrow> OsmoseCrackerIssue" where
  "issue_row_to_issue_instance issueRow =
     \<lparr> core_id = col_core_id issueRow,
       core_lat = col_core_lat issueRow,
       core_lon = col_core_lon issueRow,
       details_descriptionstr = py_str (col_details_descriptionstr issueRow),
       espaceco_theme = py_str (col_espaceco_theme issueRow),
       cluster_id = None,
       sketchcontent = None,
       espaceco_signalement_id =
         (case col_espaceco_signalement_id issueRow of
            None \<Rightarrow> None
          | Some i \<Rightarrow> if i = 0 then None else Some i),
       espaceco_signalement_status =
         (case col_espaceco_signalement_status issueRow of
            None \<Rightarrow> None
          | Some s \<Rightarrow> if s = [] then None else Some s),
       espaceco_signalement_status_refresh_timestamp =
         col_espaceco_signalement_status_refresh_timestamp issueRow \<rparr>"

subsection \<open>The WHERE clauses\<close>

text \<open>
  SQL conditions have three values: true, false and \<^verbatim>\<open>NULL\<close> (\<open>None\<close>). A row is selected
  when the condition is true.
\<close>

type_synonym sql_bool = "bool option"

definition sql_not :: "sql_bool \<Rightarrow> sql_bool" where
  "sql_not b = (case b of None \<Rightarrow> None | Some v \<Rightarrow> Some (\<not> v))"

definition sql_and :: "sql_bool \<Rightarrow> sql_bool \<Rightarrow> sql_bool" where
  "sql_and a b =
     (if a = Some False \<or> b = Some False then Some False
      else if a = None \<or> b = None then None
      else Some True)"

definition sql_is_null :: "'a option \<Rightarrow> sql_bool" where
  "sql_is_null v = Some (v = None)"

definition sql_not_in :: "string option \<Rightarrow> string list \<Rightarrow> sql_bool" where
  "sql_not_in v vs = (case v of None \<Rightarrow> None | Some s \<Rightarrow> Some (s \<notin> set vs))"

definition sql_where :: "sql_bool \<Rightarrow> bool" where
  "sql_where b = (b = Some True)"

text \<open>\<^verbatim>\<open>osmosecracker_config.OC_UNCLOSED_STATUSES\<close>, line 143.\<close>

definition OC_UNCLOSED_STATUSES :: "string list" where
  "OC_UNCLOSED_STATUSES = [''valid'', ''valid0'', ''reject'', ''reject0'']"

text \<open>
  \<^verbatim>\<open>get_issues_by_espacecosignalements_unclosed\<close>, lines 1224-1269:
  \<^verbatim>\<open>SELECT * FROM osmoseissue WHERE espaceco_signalement_status NOT IN ("valid", "valid0",
  "reject", "reject0")\<close>. The rows come in table order here; SQLite promises no order, and
  no statement below depends on one. The selections are stated for a valid database
  (\<^verbatim>\<open>is_valid()\<close>), the only case in which \<^verbatim>\<open>main\<close> reaches its loops.
\<close>

definition get_issues_by_espacecosignalements_unclosed ::
  "osmoseissue list \<Rightarrow> OsmoseCrackerIssue list" where
  "get_issues_by_espacecosignalements_unclosed db =
     map issue_row_to_issue_instance
       (filter (\<lambda>issue_row. sql_where
          (sql_not_in (col_espaceco_signalement_status issue_row) OC_UNCLOSED_STATUSES)) db)"

text \<open>
  \<^verbatim>\<open>get_issues_by_espacecosignalements_none_and_zicad_false\<close>, lines 1312-1354:
  \<^verbatim>\<open>SELECT * FROM osmoseissue WHERE espaceco_signalement_id is null AND NOT
  bduni_objet_zicad\<close>.
\<close>

definition get_issues_by_espacecosignalements_none_and_zicad_false ::
  "osmoseissue list \<Rightarrow> OsmoseCrackerIssue list" where
  "get_issues_by_espacecosignalements_none_and_zicad_false db =
     map issue_row_to_issue_instance
       (filter (\<lambda>issue_row. sql_where
          (sql_and (sql_is_null (col_espaceco_signalement_id issue_row))
                   (sql_not (col_bduni_objet_zicad issue_row)))) db)"

subsection \<open>Writing a report reference\<close>

text \<open>
  \<^verbatim>\<open>update_signalement\<close>, lines 859-909, pastes its values into the text of the statement
  with \<^verbatim>\<open>format\<close>:

  \<^verbatim>\<open>UPDATE osmoseissue SET espaceco_signalement_id = {id},
  espaceco_signalement_status = '{status}',
  espaceco_signalement_status_refresh_timestamp = '{timestamp.isoformat()}'
  WHERE core_id = '{core_id}' RETURNING rowid;\<close>

  The status stands between quotes. SQLite reads a quoted text up to the first quote that
  is not followed by a second one, and two quotes in a row as one quote of the text.
  \<open>sql_unquote\<close> is the text SQLite reads when every quote of the pasted text is one of
  such a pair; with any other quote the literal ends early or late and the statement is
  another one (\<open>None\<close>).
\<close>

fun sql_unquote :: "string \<Rightarrow> string option" where
  "sql_unquote [] = Some []"
| "sql_unquote [c] = (if c = CHR 0x27 then None else Some [c])"
| "sql_unquote (c # d # cs) =
     (if c = CHR 0x27
      then (if d = CHR 0x27 then map_option ((#) c) (sql_unquote cs) else None)
      else map_option ((#) c) (sql_unquote (d # cs)))"

definition sql_text :: "string \<Rightarrow> bool" where
  "sql_text s = (CHR 0x27 \<notin> set s)"

text \<open>
  The identifier is pasted bare, as a decimal literal. SQLite keeps a literal from
  \<open>-2^63\<close> to \<open>2^63 - 1\<close> as that integer; a literal beyond becomes a \<^verbatim>\<open>REAL\<close>, which the
  column keeps and \<^verbatim>\<open>int()\<close> reads back as an integer near the literal. Of that rounding the
  embedding fixes the sign and the symmetry (a literal and its negation give opposite
  numbers, of magnitude \<open>2^63\<close> at least, and \<open>2^63\<close> itself is exact); how far above
  \<open>2^63\<close> the number read back lies is the parameter \<open>real_of\<close>. A literal of more than
  308 digits, whose \<^verbatim>\<open>REAL\<close> is infinite, is not told apart.
\<close>

definition sqlite_integer :: "(nat \<Rightarrow> nat) \<Rightarrow> int \<Rightarrow> int" where
  "sqlite_integer real_of i =
     (if \<bar>i\<bar> \<le> 2 ^ 63 then i
      else if 0 < i then 2 ^ 63 + int (real_of (nat i))
      else - (2 ^ 63 + int (real_of (nat (- i)))))"

text \<open>
  What belongs to SQLite and is not read by the embedding: the rounding above, and
  \<open>other_statement\<close>, the end of \<^verbatim>\<open>update_signalement\<close> (the table it leaves, or the
  exception it raises, the table then being as before) when the status holds a quote
  outside a pair. It is given the values pasted and the table.
\<close>

record sqlite =
  real_of :: "nat \<Rightarrow> nat"
  other_statement ::
    "int option \<Rightarrow> string \<Rightarrow> timestamp \<Rightarrow> uuid \<Rightarrow> osmoseissue list \<Rightarrow> error + osmoseissue list"

text \<open>
  \<^verbatim>\<open>update_signalement\<close>, for a valid database, as the selections:
  \<^item> \<^verbatim>\<open>isoformat\<close> of a missing timestamp raises \<^verbatim>\<open>AttributeError\<close> before anything is sent;
  \<^item> the status is pasted between quotes whatever it is: \<^verbatim>\<open>None\<close> is pasted as the four
    letters \<^verbatim>\<open>None\<close>, so the column receives the text \<^verbatim>\<open>'None'\<close>;
  \<^item> the identifier \<^verbatim>\<open>None\<close> gives \<^verbatim>\<open>espaceco_signalement_id = None\<close>, which SQLite refuses
    (no such column);
  \<^item> when no row has the \<^verbatim>\<open>core_id\<close>, \<^verbatim>\<open>fetchone()\<close> is \<^verbatim>\<open>None\<close> and the unpacking
    \<^verbatim>\<open>(result, ) = None\<close> raises \<^verbatim>\<open>TypeError\<close>;
  \<^item> an exception leaves the block of the connection, which rolls back: the table is as
    before.
\<close>

definition update_signalement ::
  "sqlite \<Rightarrow> osmoseissue list \<Rightarrow> OsmoseCrackerIssue \<Rightarrow> error + osmoseissue list" where
  "update_signalement engine db osmosecrackerIssue =
     (case espaceco_signalement_status_refresh_timestamp osmosecrackerIssue of
        None \<Rightarrow> Inl AttributeError
      | Some ts \<Rightarrow>
          (case sql_unquote (py_str (espaceco_signalement_status osmosecrackerIssue)) of
             None \<Rightarrow>
               other_statement engine (espaceco_signalement_id osmosecrackerIssue)
                 (py_str (espaceco_signalement_status osmosecrackerIssue)) ts
                 (core_id osmosecrackerIssue) db
           | Some status_read \<Rightarrow>
               (case espaceco_signalement_id osmosecrackerIssue of
                  None \<Rightarrow> Inl OperationalError
                | Some i \<Rightarrow>
                    if core_id osmosecrackerIssue \<notin> col_core_id ` set db then Inl TypeError
                    else Inr (map (\<lambda>row.
                           if col_core_id row = core_id osmosecrackerIssue
                           then row\<lparr> col_espaceco_signalement_id :=
                                       Some (sqlite_integer (real_of engine) i),
                                     col_espaceco_signalement_status := Some status_read,
                                     col_espaceco_signalement_status_refresh_timestamp := Some ts \<rparr>
                           else row) db))))"

subsection \<open>The emission loop of main\<close>

text \<open>
  \<^verbatim>\<open>args.type_signalement\<close>: the parser admits the four choices of line 174 and no other
  text.
\<close>

datatype signalement_choice = Skip | Test | Submit | Repost

fun choice_text :: "signalement_choice \<Rightarrow> string" where
  "choice_text Skip = ''skip''"
| "choice_text Test = ''test''"
| "choice_text Submit = ''submit''"
| "choice_text Repost = ''repost''"

text \<open>
  What one run fixes before the loop: the reporting service (the reply to the \<open>n\<close>-th
  creation call, \<open>n\<close> counted from 0), \<^verbatim>\<open>issue.markdown_report()\<close> (the text it stores in
  \<^verbatim>\<open>details_descriptionstr\<close>, or the exception it raises: it formats floats and reads
  configuration tables, which are not modelled), \<^verbatim>\<open>args.type_signalement\<close>,
  \<^verbatim>\<open>issuesSignalementTimestamp\<close>, line 508, and SQLite.
\<close>

record run =
  http_post :: "nat \<Rightarrow> post_request \<Rightarrow> post_reply"
  markdown_report :: "OsmoseCrackerIssue \<Rightarrow> error + string"
  type_signalement :: signalement_choice
  issuesSignalementTimestamp :: timestamp
  run_sqlite :: sqlite

text \<open>
  The variables the loop carries, lines 511-520: \<^verbatim>\<open>cluster_id\<close> (here
  \<open>loop_cluster_id\<close>, the attribute of the issue keeping the name), \<^verbatim>\<open>signalementid\<close>,
  \<^verbatim>\<open>reportcounter\<close>, and the table. \<^verbatim>\<open>reportcounter\<close> is incremented before each creation
  call and nowhere else, so it numbers the calls.
\<close>

record emission =
  loop_cluster_id :: "string option"
  signalementid :: "int option"
  reportcounter :: nat
  database :: "osmoseissue list"

definition emission_start :: "osmoseissue list \<Rightarrow> emission" where
  "emission_start db =
     \<lparr> loop_cluster_id = None, signalementid = None, reportcounter = 0, database = db \<rparr>"

text \<open>
  The sentence added to the message of a cluster report, lines 547-549, as UTF-8 bytes.
\<close>

definition cluster_notice :: string where
  "cluster_notice =
     [CHR 0x0A] @ '' '' @
     ''**Attention : ce signalement englobe une zone. Vous pouvez trouver cette zone sur la g''
     @ [CHR 0xC3, CHR 0xA9] @ ''om'' @ [CHR 0xC3, CHR 0xA9] @ ''trie affich''
     @ [CHR 0xC3, CHR 0xA9] @ ''e ci-contre.**'' @ [CHR 0x0A] @ '' ''"

text \<open>
  Lines 538-567: which identifier the issue gets. A creation call that raises ends the
  run (\<open>Inl\<close>); \<^verbatim>\<open>-abs(signalementid)\<close> raises \<^verbatim>\<open>TypeError\<close> when \<^verbatim>\<open>signalementid\<close> is
  \<^verbatim>\<open>None\<close>. The branch for an issue without cluster leaves \<^verbatim>\<open>cluster_id\<close> as it is.
\<close>

definition emission_decide :: "run \<Rightarrow> emission \<Rightarrow> OsmoseCrackerIssue \<Rightarrow> error + emission" where
  "emission_decide r st issue =
     (if cluster_id issue \<noteq> None then
        (if cluster_id issue \<noteq> loop_cluster_id st then
           (case post_signalement (http_post r (reportcounter st))
                   (core_lon issue) (core_lat issue)
                   (details_descriptionstr issue @ cluster_notice)
                   (espaceco_theme issue) (choice_text (type_signalement r)) (sketchcontent issue) of
              Inl exc \<Rightarrow> Inl exc
            | Inr createdid \<Rightarrow>
                Inr (st\<lparr> reportcounter := reportcounter st + 1,
                          loop_cluster_id := cluster_id issue,
                          signalementid := createdid \<rparr>))
         else
           (case signalementid st of
              None \<Rightarrow> Inl TypeError
            | Some i \<Rightarrow> Inr (st\<lparr> signalementid := Some (- \<bar>i\<bar>) \<rparr>)))
      else
        (case post_signalement (http_post r (reportcounter st))
                (core_lon issue) (core_lat issue)
                (details_descriptionstr issue)
                (espaceco_theme issue) (choice_text (type_signalement r)) None of
           Inl exc \<Rightarrow> Inl exc
         | Inr createdid \<Rightarrow>
             Inr (st\<lparr> reportcounter := reportcounter st + 1,
                       signalementid := createdid \<rparr>)))"

text \<open>
  Lines 568-581: when \<^verbatim>\<open>signalementid\<close> is not \<^verbatim>\<open>None\<close> the identifier, the timestamp of
  the run and the status are set on the issue and \<^verbatim>\<open>update_signalement\<close> writes them. The
  status is \<^verbatim>\<open>args.type_signalement\<close> when the identifier is positive and \<^verbatim>\<open>None\<close>
  otherwise.
\<close>

definition emission_persist ::
  "run \<Rightarrow> emission \<Rightarrow> OsmoseCrackerIssue \<Rightarrow> error + emission" where
  "emission_persist r st issue =
     (case signalementid st of
        None \<Rightarrow> Inr st
      | Some i \<Rightarrow>
          (case update_signalement (run_sqlite r) (database st)
                  (issue\<lparr> espaceco_signalement_id := Some i,
                          espaceco_signalement_status_refresh_timestamp :=
                            Some (issuesSignalementTimestamp r),
                          espaceco_signalement_status :=
                            (if i > 0 then Some (choice_text (type_signalement r)) else None) \<rparr>) of
             Inl exc \<Rightarrow> Inl exc
           | Inr db \<Rightarrow> Inr (st\<lparr> database := db \<rparr>)))"

text \<open>The body of the loop, lines 522-584: every exception is logged and raised again.\<close>

definition emission_issue :: "run \<Rightarrow> emission \<Rightarrow> OsmoseCrackerIssue \<Rightarrow> error + emission" where
  "emission_issue r st issue =
     (case markdown_report r issue of
        Inl exc \<Rightarrow> Inl exc
      | Inr text \<Rightarrow>
          (case emission_decide r st (issue\<lparr> details_descriptionstr := text \<rparr>) of
             Inl exc \<Rightarrow> Inl exc
           | Inr st1 \<Rightarrow> emission_persist r st1 (issue\<lparr> details_descriptionstr := text \<rparr>)))"

fun emission_loop :: "run \<Rightarrow> emission \<Rightarrow> OsmoseCrackerIssue list \<Rightarrow> error + emission" where
  "emission_loop r st [] = Inr st"
| "emission_loop r st (issue # issues) =
     (case emission_issue r st issue of
        Inl exc \<Rightarrow> Inl exc
      | Inr st1 \<Rightarrow> emission_loop r st1 issues)"

subsection \<open>The loop of the specification\<close>

text \<open>
  The transition rule as the specification words it (section 4.3), to be compared with the
  loop of the source: it differs from \<open>emission_decide\<close> in the branch of an issue without
  cluster key, which here resets the carried cluster key to unset.
\<close>

definition emission_decide_reset ::
  "run \<Rightarrow> emission \<Rightarrow> OsmoseCrackerIssue \<Rightarrow> error + emission" where
  "emission_decide_reset r st issue =
     (if cluster_id issue \<noteq> None then emission_decide r st issue
      else
        (case emission_decide r st issue of
           Inl exc \<Rightarrow> Inl exc
         | Inr st1 \<Rightarrow> Inr (st1\<lparr> loop_cluster_id := None \<rparr>)))"

definition emission_issue_reset ::
  "run \<Rightarrow> emission \<Rightarrow> OsmoseCrackerIssue \<Rightarrow> error + emission" where
  "emission_issue_reset r st issue =
     (case markdown_report r issue of
        Inl exc \<Rightarrow> Inl exc
      | Inr text \<Rightarrow>
          (case emission_decide_reset r st (issue\<lparr> details_descriptionstr := text \<rparr>) of
             Inl exc \<Rightarrow> Inl exc
           | Inr st1 \<Rightarrow> emission_persist r st1 (issue\<lparr> details_descriptionstr := text \<rparr>)))"

fun emission_loop_reset ::
  "run \<Rightarrow> emission \<Rightarrow> OsmoseCrackerIssue list \<Rightarrow> error + emission" where
  "emission_loop_reset r st [] = Inr st"
| "emission_loop_reset r st (issue # issues) =
     (case emission_issue_reset r st issue of
        Inl exc \<Rightarrow> Inl exc
      | Inr st1 \<Rightarrow> emission_loop_reset r st1 issues)"

subsection \<open>The status refresh loop of main\<close>

text \<open>
  Lines 599-608. The loop carries the table and the network: \<open>requested\<close> is the list of
  the identifiers that \<^verbatim>\<open>requests.get\<close> was asked for, as \<^verbatim>\<open>get_status_signalement\<close> leaves
  it. Every \<^verbatim>\<open>UPDATE\<close> is committed when it is made, so an exception ends the loop and
  leaves the table as the issues before have written it: the loop returns the exception,
  if any, and the state reached.
\<close>

record refresh =
  refresh_database :: "osmoseissue list"
  requested :: "int option list"

definition refresh_start :: "osmoseissue list \<Rightarrow> refresh" where
  "refresh_start db = \<lparr> refresh_database = db, requested = [] \<rparr>"

definition refresh_issue ::
  "(nat \<Rightarrow> int option \<Rightarrow> get_reply) \<Rightarrow> sqlite \<Rightarrow> timestamp \<Rightarrow> refresh \<Rightarrow>
     OsmoseCrackerIssue \<Rightarrow> error option \<times> refresh" where
  "refresh_issue service engine issuesStatusrefreshTimestamp st obj_select =
     (case get_status_signalement service (requested st)
             (espaceco_signalement_id obj_select) of
        (Inl exc, sent) \<Rightarrow> (Some exc, st\<lparr> requested := sent \<rparr>)
      | (Inr status, sent) \<Rightarrow>
          (if status \<noteq> None then
             (case update_signalement engine (refresh_database st)
                     (obj_select\<lparr> espaceco_signalement_status := status,
                                  espaceco_signalement_status_refresh_timestamp :=
                                    Some issuesStatusrefreshTimestamp \<rparr>) of
                Inl exc \<Rightarrow> (Some exc, st\<lparr> requested := sent \<rparr>)
              | Inr db \<Rightarrow> (None, \<lparr> refresh_database = db, requested = sent \<rparr>))
           else (None, st\<lparr> requested := sent \<rparr>)))"

fun refresh_loop ::
  "(nat \<Rightarrow> int option \<Rightarrow> get_reply) \<Rightarrow> sqlite \<Rightarrow> timestamp \<Rightarrow> refresh \<Rightarrow>
     OsmoseCrackerIssue list \<Rightarrow> error option \<times> refresh" where
  "refresh_loop service engine t st [] = (None, st)"
| "refresh_loop service engine t st (obj_select # issuesStatusrefresh) =
     (case refresh_issue service engine t st obj_select of
        (Some exc, st1) \<Rightarrow> (Some exc, st1)
      | (None, st1) \<Rightarrow> refresh_loop service engine t st1 issuesStatusrefresh)"

subsection \<open>The correlation loops of clustering\<close>

text \<open>
  A row of the answer of the spatial service, as \<^verbatim>\<open>clustering\<close> reads it: \<^verbatim>\<open>core_id\<close>,
  \<^verbatim>\<open>cluster_id\<close>, \<^verbatim>\<open>bounding_box\<close> and the two coordinates of the centre. The three
  geometric values are kept as the text \<^verbatim>\<open>str\<close> gives for them, \<open>None\<close> for \<^verbatim>\<open>NULL\<close>.
  The query itself runs in the spatial database and is not modelled: its answer is an
  input (\<^verbatim>\<open>fetchall\<close> returns a list, so the test \<^verbatim>\<open>clustered_rows is not None\<close> holds), and
  a failure of the query raises before the loops start.
\<close>

record cluster_row =
  row_core_id :: uuid
  row_cluster_id :: "string option"
  row_bounding_box :: "string option"
  row_bounding_center_lat :: "string option"
  row_bounding_center_lon :: "string option"

text \<open>Lines 408-433, what is done to the issue whose \<^verbatim>\<open>core_id\<close> is the row's.\<close>

definition correlate :: "cluster_row \<Rightarrow> OsmoseCrackerIssue \<Rightarrow> OsmoseCrackerIssue" where
  "correlate row issue =
     (if row_cluster_id row \<noteq> None then
        issue\<lparr> cluster_id := row_cluster_id row,
                sketchcontent := Some
                  \<lparr> sk_desc = ''Emprise du cluster'',
                    sk_name = ''Emprise du cluster'',
                    sk_object_type = ''Polygone'',
                    sk_object_geometry = py_str (row_bounding_box row),
                    sk_contexte_lat = py_str (row_bounding_center_lat row),
                    sk_contexte_lon = py_str (row_bounding_center_lon row),
                    sk_contexte_zoom = ''17'' \<rparr> \<rparr>
      else issue\<lparr> cluster_id := None, sketchcontent := None \<rparr>)"

text \<open>
  The issues are Python objects, and the list returned holds references to the objects of
  the list received: an object appended twice is one object, and a later row writes into
  it again. So the objects live in a store, the list \<open>heap\<close>, the address of an object
  being its position in the list received, and \<^verbatim>\<open>order_issues\<close> is a list of addresses.

  The inner loop, lines 405-434, for one row; the outer loop, lines 403-434.
\<close>

fun scan_issues ::
  "cluster_row \<Rightarrow> nat list \<Rightarrow> OsmoseCrackerIssue list \<times> nat list \<Rightarrow>
     OsmoseCrackerIssue list \<times> nat list" where
  "scan_issues row [] (heap, order_issues) = (heap, order_issues)"
| "scan_issues row (a # as) (heap, order_issues) =
     scan_issues row as
       (if core_id (heap ! a) = row_core_id row
        then (heap[a := correlate row (heap ! a)], order_issues @ [a])
        else (heap, order_issues))"

fun scan_rows ::
  "cluster_row list \<Rightarrow> nat list \<Rightarrow> OsmoseCrackerIssue list \<times> nat list \<Rightarrow>
     OsmoseCrackerIssue list \<times> nat list" where
  "scan_rows [] as acc = acc"
| "scan_rows (row # clustered_rows) as acc = scan_rows clustered_rows as (scan_issues row as acc)"

definition clustering ::
  "OsmoseCrackerIssue list \<Rightarrow> cluster_row list \<Rightarrow> OsmoseCrackerIssue list \<times> nat list" where
  "clustering issues clustered_rows =
     scan_rows clustered_rows [0..<length issues] (issues, [])"

text \<open>The list \<^verbatim>\<open>clustering\<close> returns, read through the store.\<close>

definition order_issues_of :: "OsmoseCrackerIssue list \<times> nat list \<Rightarrow> OsmoseCrackerIssue list" where
  "order_issues_of res = map (\<lambda>a. fst res ! a) (snd res)"

text \<open>The last row of the answer that bears an external key.\<close>

definition last_row :: "cluster_row list \<Rightarrow> uuid \<Rightarrow> cluster_row option" where
  "last_row clustered_rows k = find (\<lambda>row. row_core_id row = k) (rev clustered_rows)"

subsection \<open>Notions used in the statements\<close>

text \<open>
  The row a table holds for an external key (\<^verbatim>\<open>core_id\<close> is unique, the first is the
  one), and the report reference persisted for the key: \<open>None\<close> when the column is
  \<^verbatim>\<open>NULL\<close> or the row is missing.
\<close>

definition stored :: "osmoseissue list \<Rightarrow> uuid \<Rightarrow> osmoseissue option" where
  "stored db k = find (\<lambda>row. col_core_id row = k) db"

definition reference :: "osmoseissue list \<Rightarrow> uuid \<Rightarrow> int option" where
  "reference db k =
     (case stored db k of None \<Rightarrow> None | Some row \<Rightarrow> col_espaceco_signalement_id row)"

text \<open>The issues of a sequence that bear a cluster key, in sequence order.\<close>

definition members :: "string \<Rightarrow> OsmoseCrackerIssue list \<Rightarrow> OsmoseCrackerIssue list" where
  "members c issues = filter (\<lambda>x. cluster_id x = Some c) issues"

text \<open>
  A cluster-ordered sequence: the members of each cluster key are adjacent. After an issue
  with key \<open>c\<close> and the members of \<open>c\<close> that follow it directly, \<open>c\<close> does not occur again.
\<close>

fun clusters_adjacent :: "OsmoseCrackerIssue list \<Rightarrow> bool" where
  "clusters_adjacent [] = True"
| "clusters_adjacent (x # xs) =
     ((case cluster_id x of
         None \<Rightarrow> True
       | Some c \<Rightarrow> Some c \<notin> cluster_id ` set (dropWhile (\<lambda>y. cluster_id y = Some c) xs))
      \<and> clusters_adjacent xs)"

text \<open>
  What a run of the emission loop can be observed by: the exception that ended it, or the
  identifier it carries, the number of reports it created and the table.
\<close>

definition observed :: "error + emission \<Rightarrow> error + int option \<times> nat \<times> osmoseissue list" where
  "observed res =
     (case res of
        Inl exc \<Rightarrow> Inl exc
      | Inr st \<Rightarrow> Inr (signalementid st, reportcounter st, database st))"

text \<open>The cluster key a run of the emission loop carries at its end.\<close>

definition carried :: "error + emission \<Rightarrow> error + string option" where
  "carried res = (case res of Inl exc \<Rightarrow> Inl exc | Inr st \<Rightarrow> Inr (loop_cluster_id st))"

subsection \<open>Example services\<close>

definition service_null_id :: "post_request \<Rightarrow> post_reply" where
  "service_null_id rq = Post_response 201 (Json_id None)"

definition service_created_7 :: "post_request \<Rightarrow> post_reply" where
  "service_created_7 rq = Post_response 201 (Json_id (Some 7))"

definition service_refusing :: "post_request \<Rightarrow> post_reply" where
  "service_refusing rq = Post_response 400 Json_without_id"

subsection \<open>Example tables\<close>

definition example_row :: "string \<Rightarrow> int option \<Rightarrow> string option \<Rightarrow> bool option \<Rightarrow> osmoseissue" where
  "example_row k i s z =
     \<lparr> col_core_id = Uuid k, col_core_lat = 48, col_core_lon = 2,
       col_details_descriptionstr = Some ''d'', col_espaceco_theme = Some ''t'',
       col_espaceco_signalement_id = i, col_espaceco_signalement_status = s,
       col_espaceco_signalement_status_refresh_timestamp = None,
       col_bduni_objet_zicad = z \<rparr>"

text \<open>
  Four issues without a report: zone flag unresolved, resolved to "not in a zone",
  resolved to "in a zone"; and one outside a zone, reported already.
\<close>

definition table_zicad :: "osmoseissue list" where
  "table_zicad =
     [example_row ''a'' None None None,
      example_row ''b'' None None (Some False),
      example_row ''c'' None None (Some True),
      example_row ''d'' (Some 12) (Some ''submit'') (Some False)]"

text \<open>
  Issue a: report 5, status \<^verbatim>\<open>valid\<close> (a member of the list). Issue b: no report, status
  \<^verbatim>\<open>submit\<close> (not a member). Issue c: report 6, no status.
\<close>

definition table_statuses :: "osmoseissue list" where
  "table_statuses =
     [example_row ''a'' (Some 5) (Some ''valid'') (Some False),
      example_row ''b'' None (Some ''submit'') (Some False),
      example_row ''c'' (Some 6) None (Some False)]"

subsection \<open>Example runs of the emission loop\<close>

text \<open>
  Services that accept every report: the first numbers the reports 101, 102, ...; the
  second answers identifier 0 every time, the third identifier -7.
\<close>

definition service_counting :: "nat \<Rightarrow> post_request \<Rightarrow> post_reply" where
  "service_counting n rq = Post_response 201 (Json_id (Some (101 + int n)))"

definition service_zero :: "nat \<Rightarrow> post_request \<Rightarrow> post_reply" where
  "service_zero n rq = Post_response 201 (Json_id (Some 0))"

definition service_minus_7 :: "nat \<Rightarrow> post_request \<Rightarrow> post_reply" where
  "service_minus_7 n rq = Post_response 201 (Json_id (Some (- 7)))"

definition report_text :: "OsmoseCrackerIssue \<Rightarrow> error + string" where
  "report_text issue = Inr ''r''"

text \<open>
  An SQLite for the examples, where every identifier fits 64 bits and no status holds a
  quote, so that no example reads it: it would read a literal beyond 64 bits back as the
  literal and refuse every statement with a quote out of place.
\<close>

definition example_sqlite :: sqlite where
  "example_sqlite =
     \<lparr> real_of = (\<lambda>n. n - 2 ^ 63),
       other_statement = (\<lambda>i s ts k db. Inl OperationalError) \<rparr>"

text \<open>A run in mode \<^verbatim>\<open>submit\<close> whose timestamp is the instant 7.\<close>

definition example_run :: "(nat \<Rightarrow> post_request \<Rightarrow> post_reply) \<Rightarrow> run" where
  "example_run service =
     \<lparr> http_post = service, markdown_report = report_text,
       type_signalement = Submit, issuesSignalementTimestamp = 7,
       run_sqlite = example_sqlite \<rparr>"

text \<open>
  An eligible row for an external key, and the issue read from it once \<^verbatim>\<open>clustering\<close> has
  attached a cluster key (or none).
\<close>

definition eligible_row :: "string \<Rightarrow> osmoseissue" where
  "eligible_row k = example_row k None None (Some False)"

definition example_issue :: "string \<Rightarrow> string option \<Rightarrow> OsmoseCrackerIssue" where
  "example_issue k c =
     correlate \<lparr> row_core_id = Uuid k, row_cluster_id = c,
                 row_bounding_box = Some ''POLYGON((2 48,2 49,3 49,3 48,2 48))'',
                 row_bounding_center_lat = Some ''48.5'',
                 row_bounding_center_lon = Some ''2.5'' \<rparr>
       (issue_row_to_issue_instance (eligible_row k))"

text \<open>
  What a run leaves in the table, row by row: external key, report reference, report
  status, refresh timestamp; or the exception that ended the run.
\<close>

definition persisted_row :: "osmoseissue \<Rightarrow> string \<times> int option \<times> string option \<times> timestamp option" where
  "persisted_row row =
     (uuid_text (col_core_id row), col_espaceco_signalement_id row,
      col_espaceco_signalement_status row,
      col_espaceco_signalement_status_refresh_timestamp row)"

definition persisted ::
  "error + emission \<Rightarrow> error + (string \<times> int option \<times> string option \<times> timestamp option) list" where
  "persisted res =
     (case res of Inl exc \<Rightarrow> Inl exc | Inr st \<Rightarrow> Inr (map persisted_row (database st)))"

text \<open>
  Two clusters of two members with an issue without cluster between them, and the state
  in which the loop leaves them when the service numbers the reports.
\<close>

definition two_clusters :: "OsmoseCrackerIssue list" where
  "two_clusters =
     [example_issue ''a'' (Some ''K1''), example_issue ''b'' (Some ''K1''),
      example_issue ''s'' None,
      example_issue ''c'' (Some ''K2''), example_issue ''d'' (Some ''K2'')]"

definition table_two_clusters :: "osmoseissue list" where
  "table_two_clusters =
     [eligible_row ''a'', eligible_row ''b'', eligible_row ''s'', eligible_row ''c'',
      eligible_row ''d'']"

definition after_two_clusters :: emission where
  "after_two_clusters =
     \<lparr> loop_cluster_id = Some ''K2'', signalementid = Some (- 103), reportcounter = 3,
       database =
         [(eligible_row ''a'')\<lparr> col_espaceco_signalement_id := Some 101,
             col_espaceco_signalement_status := Some ''submit'',
             col_espaceco_signalement_status_refresh_timestamp := Some 7 \<rparr>,
          (eligible_row ''b'')\<lparr> col_espaceco_signalement_id := Some (- 101),
             col_espaceco_signalement_status := Some ''None'',
             col_espaceco_signalement_status_refresh_timestamp := Some 7 \<rparr>,
          (eligible_row ''s'')\<lparr> col_espaceco_signalement_id := Some 102,
             col_espaceco_signalement_status := Some ''submit'',
             col_espaceco_signalement_status_refresh_timestamp := Some 7 \<rparr>,
          (eligible_row ''c'')\<lparr> col_espaceco_signalement_id := Some 103,
             col_espaceco_signalement_status := Some ''submit'',
             col_espaceco_signalement_status_refresh_timestamp := Some 7 \<rparr>,
          (eligible_row ''d'')\<lparr> col_espaceco_signalement_id := Some (- 103),
             col_espaceco_signalement_status := Some ''None'',
             col_espaceco_signalement_status_refresh_timestamp := Some 7 \<rparr>] \<rparr>"

text \<open>
  A cluster of one member followed by an issue without cluster, as the spatial service
  orders them (a \<^verbatim>\<open>NULL\<close> cluster key comes last), and the table of the two.
\<close>

definition cluster_then_standalone :: "OsmoseCrackerIssue list" where
  "cluster_then_standalone = [example_issue ''a'' (Some ''K1''), example_issue ''s'' None]"

definition table_cluster_then_standalone :: "osmoseissue list" where
  "table_cluster_then_standalone = [eligible_row ''a'', eligible_row ''s'']"

text \<open>
  The states of the loop over these two, when the service numbers the reports: after the
  issue a, and after the issue s.
\<close>

definition after_cluster :: emission where
  "after_cluster =
     \<lparr> loop_cluster_id = Some ''K1'', signalementid = Some 101, reportcounter = 1,
       database =
         [(eligible_row ''a'')\<lparr> col_espaceco_signalement_id := Some 101,
             col_espaceco_signalement_status := Some ''submit'',
             col_espaceco_signalement_status_refresh_timestamp := Some 7 \<rparr>,
          eligible_row ''s''] \<rparr>"

definition after_standalone :: emission where
  "after_standalone =
     \<lparr> loop_cluster_id = Some ''K1'', signalementid = Some 102, reportcounter = 2,
       database =
         [(eligible_row ''a'')\<lparr> col_espaceco_signalement_id := Some 101,
             col_espaceco_signalement_status := Some ''submit'',
             col_espaceco_signalement_status_refresh_timestamp := Some 7 \<rparr>,
          (eligible_row ''s'')\<lparr> col_espaceco_signalement_id := Some 102,
             col_espaceco_signalement_status := Some ''submit'',
             col_espaceco_signalement_status_refresh_timestamp := Some 7 \<rparr>] \<rparr>"

text \<open>The state before an issue without cluster is emitted as the first of a run.\<close>

definition before_standalone :: emission where
  "before_standalone = emission_start [eligible_row ''s'']"

subsection \<open>Example runs of the status refresh loop\<close>

text \<open>
  The table an emission run leaves for a cluster of two: a owns report 101, b is linked to
  it. A service that knows report 101 as \<^verbatim>\<open>valid\<close> and answers 404 to anything else.
\<close>

definition table_linked :: "osmoseissue list" where
  "table_linked =
     [example_row ''a'' (Some 101) (Some ''submit'') (Some False),
      example_row ''b'' (Some (- 101)) (Some ''None'') (Some False)]"

definition service_knows_101 :: "nat \<Rightarrow> int option \<Rightarrow> get_reply" where
  "service_knows_101 n signalement =
     (if signalement = Some 101 then Get_response 200 (Json_status (Some ''valid''))
      else Get_response 404 Get_not_json)"

text \<open>
  What a refresh run leaves: the exception that ended it, if any, the rows of the table
  and the identifiers the look-ups were made with.
\<close>

definition refreshed ::
  "error option \<times> refresh \<Rightarrow>
     error option \<times> (string \<times> int option \<times> string option \<times> timestamp option) list
       \<times> int option list" where
  "refreshed res =
     (fst res, map persisted_row (refresh_database (snd res)), requested (snd res))"

text \<open>
  Two open reports: 101, which the service knows as \<^verbatim>\<open>valid\<close>, and 105, which it does not
  know; the issues the refresh selects from the table, and the state the loop leaves at
  instant 9.
\<close>

definition table_open :: "osmoseissue list" where
  "table_open =
     [example_row ''a'' (Some 101) (Some ''submit'') (Some False),
      example_row ''c'' (Some 105) (Some ''submit'') (Some False)]"

definition open_issues :: "OsmoseCrackerIssue list" where
  "open_issues = get_issues_by_espacecosignalements_unclosed table_open"

definition after_refresh :: refresh where
  "after_refresh =
     \<lparr> refresh_database =
         [(example_row ''a'' (Some 101) (Some ''valid'') (Some False))
            \<lparr> col_espaceco_signalement_status_refresh_timestamp := Some 9 \<rparr>,
          example_row ''c'' (Some 105) (Some ''submit'') (Some False)],
       requested = [Some 101, Some 105] \<rparr>"




subsection \<open>Example answer of the spatial service\<close>

text \<open>
  Three eligible issues a, b, c, and an answer that puts c and a, in this order, into
  cluster K1, says nothing of b, and has a row for a key that was not sent.
\<close>

definition three_issues :: "OsmoseCrackerIssue list" where
  "three_issues =
     map issue_row_to_issue_instance [eligible_row ''a'', eligible_row ''b'', eligible_row ''c'']"

definition answer_row :: "string \<Rightarrow> string option \<Rightarrow> cluster_row" where
  "answer_row k c =
     \<lparr> row_core_id = Uuid k, row_cluster_id = c,
       row_bounding_box = (case c of None \<Rightarrow> None | Some _ \<Rightarrow> Some ''POLYGON((2 48,2 49,3 49,3 48,2 48))''),
       row_bounding_center_lat = (case c of None \<Rightarrow> None | Some _ \<Rightarrow> Some ''48.5''),
       row_bounding_center_lon = (case c of None \<Rightarrow> None | Some _ \<Rightarrow> Some ''2.5'') \<rparr>"

definition answer :: "cluster_row list" where
  "answer = [answer_row ''c'' (Some ''K1''), answer_row ''a'' (Some ''K1''), answer_row ''z'' None]"

section \<open>Properties of the reporting client\<close>

lemma post_signalement_returns:
  "post_signalement http lon lat message theme ts sk = Inr v \<longleftrightarrow>
     http (req_dict lon lat message theme ts sk) = Post_response 201 (Json_id v)"
  by (auto simp: post_signalement_def post_try_def post_except_def
           split: post_reply.splits post_body.splits if_splits)

lemma post_signalement_raises_espaceco:
  "post_signalement http lon lat message theme ts sk = Inl EspaceCoException \<longleftrightarrow>
     (\<exists>code body. http (req_dict lon lat message theme ts sk) = Post_response code body
        \<and> code \<noteq> 201 \<and> body \<noteq> Not_json)"
  by (auto simp: post_signalement_def post_try_def post_except_def
           split: post_reply.splits post_body.splits if_splits)

lemma post_signalement_raises:
  "post_signalement http lon lat message theme ts sk = Inl e \<Longrightarrow>
     e = EspaceCoException \<or> e = AttributeError"
  by (auto simp: post_signalement_def post_try_def post_except_def
           split: post_reply.splits post_body.splits if_splits)

text \<open>
  C10, as the code has it. \<^verbatim>\<open>post_signalement\<close> returns a value exactly when the reply has
  status code 201 and a JSON body with an \<^verbatim>\<open>id\<close> field, and the value is that field as it
  is: \<open>None\<close> when the field is \<^verbatim>\<open>null\<close>. In every other case it raises an exception, and
  the exception is \<^verbatim>\<open>EspaceCoException\<close> exactly when the status code is not 201 and the
  body is JSON. (Every other exception leaves as the \<^verbatim>\<open>AttributeError\<close> of the handler,
  which reads \<^verbatim>\<open>exc.message\<close> before it raises \<^verbatim>\<open>exc\<close> again.)
\<close>

theorem post_signalement_outcomes:
  "(post_signalement http lon lat message theme ts sk = Inr v \<longleftrightarrow>
      http (req_dict lon lat message theme ts sk) = Post_response 201 (Json_id v))
   \<and> (post_signalement http lon lat message theme ts sk = Inl e \<longrightarrow>
        e = EspaceCoException \<or> e = AttributeError)
   \<and> (post_signalement http lon lat message theme ts sk = Inl EspaceCoException \<longleftrightarrow>
        (\<exists>code body. http (req_dict lon lat message theme ts sk) = Post_response code body
           \<and> code \<noteq> 201 \<and> body \<noteq> Not_json))"
proof (intro conjI impI)
  show "post_signalement http lon lat message theme ts sk = Inr v \<longleftrightarrow>
      http (req_dict lon lat message theme ts sk) = Post_response 201 (Json_id v)"
    by (rule post_signalement_returns)
  show "e = EspaceCoException \<or> e = AttributeError"
    if "post_signalement http lon lat message theme ts sk = Inl e"
    using that by (rule post_signalement_raises)
  show "post_signalement http lon lat message theme ts sk = Inl EspaceCoException \<longleftrightarrow>
        (\<exists>code body. http (req_dict lon lat message theme ts sk) = Post_response code body
           \<and> code \<noteq> 201 \<and> body \<noteq> Not_json)"
    by (rule post_signalement_raises_espaceco)
qed

theorem post_signalement_outcomes_witness:
  "post_signalement service_created_7 2 48 ''m'' ''t'' ''submit'' None = Inr (Some 7)
   \<and> post_signalement service_refusing 2 48 ''m'' ''t'' ''submit'' None = Inl EspaceCoException"
proof -
  have a: "service_created_7 (req_dict 2 48 ''m'' ''t'' ''submit'' None)
          = Post_response 201 (Json_id (Some 7))"
    by (simp add: service_created_7_def)
  have b: "service_refusing (req_dict 2 48 ''m'' ''t'' ''submit'' None)
          = Post_response 400 Json_without_id"
    by (simp add: service_refusing_def)
  have "post_signalement service_created_7 2 48 ''m'' ''t'' ''submit'' None = Inr (Some 7)"
    using a post_signalement_outcomes
      [of service_created_7 2 48 "''m''" "''t''" "''submit''" None "Some 7" AttributeError]
    by blast
  moreover
  have "post_signalement service_refusing 2 48 ''m'' ''t'' ''submit'' None = Inl EspaceCoException"
    using b post_signalement_outcomes
      [of service_refusing 2 48 "''m''" "''t''" "''submit''" None None AttributeError]
    by auto
  ultimately show ?thesis by (rule conjI)
qed

text \<open>
  C10, as stated, fails: a 201 reply whose \<^verbatim>\<open>id\<close> is \<^verbatim>\<open>null\<close> makes the function return
  \<open>None\<close> without raising.
\<close>

theorem post_signalement_none_counterexample:
  "post_signalement service_null_id 2 48 ''m'' ''t'' ''submit'' None = Inr None"
  by (simp add: post_signalement_def post_try_def post_except_def req_dict_def
                service_null_id_def)

section \<open>External keys\<close>

lemma uuid_eq:
  "CHR 0x27 \<notin> set s \<Longrightarrow> CHR 0x27 \<notin> set t \<Longrightarrow> Uuid s = Uuid t \<longleftrightarrow> s = t"
  by (simp add: Uuid_inject)

lemma uuid_text_Uuid: "CHR 0x27 \<notin> set s \<Longrightarrow> uuid_text (Uuid s) = s"
  by (simp add: Uuid_inverse)

section \<open>Properties of the selections\<close>

lemma sql_where_none_and_zicad_false:
  "sql_where (sql_and (sql_is_null i) (sql_not z)) \<longleftrightarrow> i = None \<and> z = Some False"
  by (cases z) (auto simp: sql_where_def sql_and_def sql_is_null_def sql_not_def)

lemma sql_where_not_in:
  "sql_where (sql_not_in v vs) \<longleftrightarrow> (\<exists>s. v = Some s \<and> s \<notin> set vs)"
  by (cases v) (auto simp: sql_where_def sql_not_in_def)

text \<open>
  C9. The eligibility selection returns exactly the rows whose report reference is
  \<^verbatim>\<open>NULL\<close> and whose zone flag is stored as false, each turned into an issue instance: a
  row whose flag is \<^verbatim>\<open>NULL\<close> makes \<^verbatim>\<open>NOT bduni_objet_zicad\<close> \<^verbatim>\<open>NULL\<close> and is not selected, a row
  whose flag is true makes it false. The selection is a function of the table and returns
  nothing but the list: the table is not written.
\<close>

theorem eligible_none_and_zicad_false:
  "get_issues_by_espacecosignalements_none_and_zicad_false db =
     map issue_row_to_issue_instance
       (filter (\<lambda>row. col_espaceco_signalement_id row = None
                     \<and> col_bduni_objet_zicad row = Some False) db)"
  unfolding get_issues_by_espacecosignalements_none_and_zicad_false_def
  by (simp only: sql_where_none_and_zicad_false)

theorem eligible_none_and_zicad_false_witness:
  "map core_id (get_issues_by_espacecosignalements_none_and_zicad_false table_zicad)
   = [Uuid ''b'']"
  using eligible_none_and_zicad_false [of table_zicad]
  by (simp add: table_zicad_def example_row_def issue_row_to_issue_instance_def)

text \<open>
  C4, as the code has it. The selection of the status refresh returns exactly the rows
  whose report status is not \<^verbatim>\<open>NULL\<close> and is none of the four texts of
  \<^verbatim>\<open>OC_UNCLOSED_STATUSES\<close>; the report reference is not looked at.
\<close>

theorem unclosed_is_not_in_list:
  "get_issues_by_espacecosignalements_unclosed db =
     map issue_row_to_issue_instance
       (filter (\<lambda>row. \<exists>s. col_espaceco_signalement_status row = Some s
                     \<and> s \<noteq> ''valid'' \<and> s \<noteq> ''valid0'' \<and> s \<noteq> ''reject'' \<and> s \<noteq> ''reject0'') db)"
proof -
  have "sql_where (sql_not_in v OC_UNCLOSED_STATUSES) \<longleftrightarrow>
          (\<exists>s. v = Some s \<and> s \<noteq> ''valid'' \<and> s \<noteq> ''valid0'' \<and> s \<noteq> ''reject'' \<and> s \<noteq> ''reject0'')"
    for v
    unfolding sql_where_not_in by (simp add: OC_UNCLOSED_STATUSES_def)
  then show ?thesis
    unfolding get_issues_by_espacecosignalements_unclosed_def by (simp only:)
qed

theorem unclosed_is_not_in_list_witness:
  "map core_id (get_issues_by_espacecosignalements_unclosed
     [example_row ''b'' None (Some ''submit'') (Some False)]) = [Uuid ''b'']"
  using unclosed_is_not_in_list [of "[example_row ''b'' None (Some ''submit'') (Some False)]"]
  by (simp add: example_row_def issue_row_to_issue_instance_def)

text \<open>
  C4, as stated, fails on \<open>table_statuses\<close>: issue a, whose status is a member of the list
  and whose reference is set, is not returned, and issue b, whose status is not a member
  and whose reference is \<^verbatim>\<open>NULL\<close>, is returned.
\<close>

theorem unclosed_allow_list_counterexample:
  "map core_id (get_issues_by_espacecosignalements_unclosed table_statuses) = [Uuid ''b'']"
  by (simp add: get_issues_by_espacecosignalements_unclosed_def table_statuses_def
                example_row_def issue_row_to_issue_instance_def sql_where_def sql_not_in_def
                OC_UNCLOSED_STATUSES_def)

section \<open>Properties of update_signalement\<close>

lemma sql_unquote_text: "sql_text s \<Longrightarrow> sql_unquote s = Some s"
  unfolding sql_text_def by (induction s rule: sql_unquote.induct) auto

lemma sql_text_None: "sql_text (py_str None)"
  by (simp add: sql_text_def py_str_def)

lemma sql_text_choice: "sql_text (choice_text m)"
  by (cases m) (simp_all add: sql_text_def)

lemma sqlite_integer_exact: "- (2 ^ 63) \<le> i \<Longrightarrow> i \<le> 2 ^ 63 \<Longrightarrow> sqlite_integer f i = i"
  by (simp add: sqlite_integer_def abs_le_iff)

lemma sqlite_integer_minus: "sqlite_integer f (- i) = - sqlite_integer f i"
  by (simp add: sqlite_integer_def)

lemma sqlite_integer_pos: "0 < i \<Longrightarrow> 0 < sqlite_integer f i"
proof -
  have "(0 :: int) < 2 ^ 63 + int n" for n
    by (rule add_pos_nonneg) simp_all
  then show "0 < i \<Longrightarrow> 0 < sqlite_integer f i"
    by (simp add: sqlite_integer_def)
qed

lemma stored_map_update:
  "stored (map (\<lambda>row. if col_core_id row = k then f row else row) db) k' =
     (if k' = k then map_option f (stored db k) else stored db k')"
  if "\<And>row. col_core_id (f row) = col_core_id row"
  using that by (induction db) (auto simp: stored_def)

lemma stored_None_iff: "stored db k = None \<longleftrightarrow> k \<notin> col_core_id ` set db"
  by (auto simp: stored_def find_None_iff)

text \<open>
  What a statement that SQLite reads as written does: it needs the timestamp, an
  identifier and a row with the external key, and it puts into that row, and into no
  other, the identifier as SQLite keeps it, the status as SQLite reads it and the
  timestamp.
\<close>

lemma update_signalement_written:
  assumes "update_signalement e db issue = Inr db'"
    and "sql_unquote (py_str (espaceco_signalement_status issue)) = Some status_read"
  obtains ts i where
    "espaceco_signalement_status_refresh_timestamp issue = Some ts"
    "espaceco_signalement_id issue = Some i"
    "core_id issue \<in> col_core_id ` set db"
    "db' = map (\<lambda>row.
              if col_core_id row = core_id issue
              then row\<lparr> col_espaceco_signalement_id := Some (sqlite_integer (real_of e) i),
                        col_espaceco_signalement_status := Some status_read,
                        col_espaceco_signalement_status_refresh_timestamp := Some ts \<rparr>
              else row) db"
  using assms by (auto simp: update_signalement_def split: option.splits if_splits)

lemma update_signalement_reference:
  assumes "update_signalement e db issue = Inr db'"
    and "sql_unquote (py_str (espaceco_signalement_status issue)) = Some status_read"
  shows "reference db' k =
           (if k = core_id issue
            then map_option (sqlite_integer (real_of e)) (espaceco_signalement_id issue)
            else reference db k)"
proof -
  from assms obtain ts i where
    i: "espaceco_signalement_id issue = Some i"
    and row: "core_id issue \<in> col_core_id ` set db"
    and db': "db' = map (\<lambda>row.
              if col_core_id row = core_id issue
              then row\<lparr> col_espaceco_signalement_id := Some (sqlite_integer (real_of e) i),
                        col_espaceco_signalement_status := Some status_read,
                        col_espaceco_signalement_status_refresh_timestamp := Some ts \<rparr>
              else row) db"
    by (rule update_signalement_written)
  from row obtain r where r: "stored db (core_id issue) = Some r"
    using stored_None_iff [of db "core_id issue"] by (cases "stored db (core_id issue)") auto
  show ?thesis
    unfolding db' reference_def by (subst stored_map_update) (simp_all add: r i)
qed

lemma update_signalement_stored:
  assumes "update_signalement e db issue = Inr db'"
    and "sql_unquote (py_str (espaceco_signalement_status issue)) = Some status_read"
  shows "k \<noteq> core_id issue \<Longrightarrow> stored db' k = stored db k"
    and "\<exists>row. stored db' (core_id issue) = Some row
           \<and> col_espaceco_signalement_id row
               = map_option (sqlite_integer (real_of e)) (espaceco_signalement_id issue)
           \<and> col_espaceco_signalement_status row = Some status_read
           \<and> col_espaceco_signalement_status_refresh_timestamp row
               = espaceco_signalement_status_refresh_timestamp issue"
proof -
  from assms obtain ts i where
    ts: "espaceco_signalement_status_refresh_timestamp issue = Some ts"
    and i: "espaceco_signalement_id issue = Some i"
    and row: "core_id issue \<in> col_core_id ` set db"
    and db': "db' = map (\<lambda>row.
              if col_core_id row = core_id issue
              then row\<lparr> col_espaceco_signalement_id := Some (sqlite_integer (real_of e) i),
                        col_espaceco_signalement_status := Some status_read,
                        col_espaceco_signalement_status_refresh_timestamp := Some ts \<rparr>
              else row) db"
    by (rule update_signalement_written)
  from row obtain r where r: "stored db (core_id issue) = Some r"
    using stored_None_iff [of db "core_id issue"] by (cases "stored db (core_id issue)") auto
  show "stored db' k = stored db k" if "k \<noteq> core_id issue"
    unfolding db' using that by (subst stored_map_update) simp_all
  show "\<exists>row. stored db' (core_id issue) = Some row
           \<and> col_espaceco_signalement_id row
               = map_option (sqlite_integer (real_of e)) (espaceco_signalement_id issue)
           \<and> col_espaceco_signalement_status row = Some status_read
           \<and> col_espaceco_signalement_status_refresh_timestamp row
               = espaceco_signalement_status_refresh_timestamp issue"
    unfolding db' by (subst stored_map_update) (simp_all add: r i ts)
qed

lemma update_signalement_succeeds:
  assumes "espaceco_signalement_status_refresh_timestamp issue = Some ts"
    and "espaceco_signalement_id issue = Some i"
    and "sql_unquote (py_str (espaceco_signalement_status issue)) = Some status_read"
    and "core_id issue \<in> col_core_id ` set db"
  shows "\<exists>db'. update_signalement e db issue = Inr db'"
  using assms by (simp add: update_signalement_def)

section \<open>Properties of the emission loop\<close>


subsection \<open>One issue of the loop\<close>

lemma post_signalement_try:
  "post_signalement http lon lat message theme ts sk = Inr v \<Longrightarrow>
     post_try (http (req_dict lon lat message theme ts sk)) = Inr v"
  by (auto simp: post_signalement_def split: sum.splits)

text \<open>
  The status the loop persists holds no quote: SQLite reads it as it is pasted.
\<close>

lemma emission_status_read:
  "sql_unquote (py_str (if 0 < j then Some (choice_text m) else None))
     = Some (if 0 < (j :: int) then choice_text m else ''None'')"
  using sql_unquote_text [OF sql_text_choice [of m]] sql_unquote_text [OF sql_text_None]
  by (simp add: py_str_def)

lemma emission_persist_effect:
  assumes "emission_persist r st issue = Inr st1"
  shows "loop_cluster_id st1 = loop_cluster_id st"
    and "signalementid st1 = signalementid st"
    and "reportcounter st1 = reportcounter st"
    and "k \<noteq> core_id issue \<Longrightarrow> reference (database st1) k = reference (database st) k"
    and "signalementid st = Some i \<Longrightarrow>
           reference (database st1) (core_id issue) = Some (sqlite_integer (real_of (run_sqlite r)) i)"
proof -
  consider (none) "signalementid st = None" "st1 = st"
    | (some) j db where "signalementid st = Some j"
        "update_signalement (run_sqlite r) (database st)
           (issue\<lparr> espaceco_signalement_id := Some j,
                   espaceco_signalement_status_refresh_timestamp :=
                     Some (issuesSignalementTimestamp r),
                   espaceco_signalement_status :=
                     (if j > 0 then Some (choice_text (type_signalement r)) else None) \<rparr>)
           = Inr db"
        "st1 = st\<lparr> database := db \<rparr>"
    using assms by (auto simp: emission_persist_def split: option.splits sum.splits)
  then have "loop_cluster_id st1 = loop_cluster_id st \<and> signalementid st1 = signalementid st
      \<and> reportcounter st1 = reportcounter st
      \<and> (k \<noteq> core_id issue \<longrightarrow> reference (database st1) k = reference (database st) k)
      \<and> (signalementid st = Some i \<longrightarrow>
            reference (database st1) (core_id issue) = Some (sqlite_integer (real_of (run_sqlite r)) i))"
  proof cases
    case none
    then show ?thesis by simp
  next
    case some
    have read: "sql_unquote (py_str (espaceco_signalement_status
        (issue\<lparr> espaceco_signalement_id := Some j,
                espaceco_signalement_status_refresh_timestamp :=
                  Some (issuesSignalementTimestamp r),
                espaceco_signalement_status :=
                  (if j > 0 then Some (choice_text (type_signalement r)) else None) \<rparr>)))
      = Some (if 0 < j then choice_text (type_signalement r) else ''None'')"
      by (simp add: emission_status_read del: sql_unquote.simps)
    from update_signalement_reference [OF some(2) read, of k]
         update_signalement_reference [OF some(2) read, of "core_id issue"] some(1,3)
    show ?thesis by simp
  qed
  then show "loop_cluster_id st1 = loop_cluster_id st"
    and "signalementid st1 = signalementid st"
    and "reportcounter st1 = reportcounter st"
    and "k \<noteq> core_id issue \<Longrightarrow> reference (database st1) k = reference (database st) k"
    and "signalementid st = Some i \<Longrightarrow>
           reference (database st1) (core_id issue) = Some (sqlite_integer (real_of (run_sqlite r)) i)"
    by simp_all
qed

lemma emission_decide_database:
  "emission_decide r st issue = Inr st1 \<Longrightarrow> database st1 = database st"
  by (auto simp: emission_decide_def split: if_splits sum.splits option.splits)

lemma emission_decide_standalone:
  assumes "emission_decide r st issue = Inr st1" and "cluster_id issue = None"
    and "\<forall>n rq v. post_try (http_post r n rq) = Inr v \<longrightarrow> (\<exists>p. 0 < p \<and> v = Some p)"
  shows "loop_cluster_id st1 = loop_cluster_id st \<and> (\<exists>p. 0 < p \<and> signalementid st1 = Some p)"
  using assms
  by (auto simp: emission_decide_def split: sum.splits dest!: post_signalement_try)

lemma emission_decide_new_cluster:
  assumes "emission_decide r st issue = Inr st1" and "cluster_id issue = Some c"
    and "loop_cluster_id st \<noteq> Some c"
    and "\<forall>n rq v. post_try (http_post r n rq) = Inr v \<longrightarrow> (\<exists>p. 0 < p \<and> v = Some p)"
  shows "loop_cluster_id st1 = Some c \<and> (\<exists>p. 0 < p \<and> signalementid st1 = Some p)"
  using assms
  by (auto simp: emission_decide_def split: sum.splits dest!: post_signalement_try)

lemma emission_decide_same_cluster:
  assumes "emission_decide r st issue = Inr st1" and "cluster_id issue = Some c"
    and "loop_cluster_id st = Some c"
  shows "loop_cluster_id st1 = Some c
         \<and> (\<exists>s. signalementid st = Some s \<and> signalementid st1 = Some (- \<bar>s\<bar>))"
  using assms
  by (auto simp: emission_decide_def split: option.splits)

lemma emission_issue_parts:
  assumes "emission_issue r st x = Inr st1"
  obtains msg st0 where
    "emission_decide r st (x\<lparr> details_descriptionstr := msg \<rparr>) = Inr st0"
    "emission_persist r st0 (x\<lparr> details_descriptionstr := msg \<rparr>) = Inr st1"
  using assms by (auto simp: emission_issue_def split: sum.splits)

lemma emission_issue_other_key:
  assumes "emission_issue r st x = Inr st1" and "k \<noteq> core_id x"
  shows "reference (database st1) k = reference (database st) k"
proof -
  from assms(1) obtain msg st0 where
    d: "emission_decide r st (x\<lparr> details_descriptionstr := msg \<rparr>) = Inr st0" and
    p: "emission_persist r st0 (x\<lparr> details_descriptionstr := msg \<rparr>) = Inr st1"
    by (rule emission_issue_parts)
  from emission_persist_effect(4) [OF p, of k] assms(2) emission_decide_database [OF d]
  show ?thesis by simp
qed

lemma emission_loop_other_key:
  "emission_loop r st xs = Inr st' \<Longrightarrow> k \<notin> core_id ` set xs \<Longrightarrow>
     reference (database st') k = reference (database st) k"
proof (induction xs arbitrary: st)
  case Nil
  then show ?case by simp
next
  case (Cons x xs)
  from Cons.prems(1) obtain st1 where
    s: "emission_issue r st x = Inr st1" and l: "emission_loop r st1 xs = Inr st'"
    by (auto split: sum.splits)
  from Cons.prems(2) have "k \<noteq> core_id x" "k \<notin> core_id ` set xs" by auto
  with Cons.IH [OF l] emission_issue_other_key [OF s] show ?case by simp
qed

text \<open>
  What one issue does to the variables of the loop and to its own row, when every
  creation call that returns gives a positive identifier.
\<close>

lemma emission_issue_standalone:
  assumes "emission_issue r st x = Inr st1" and "cluster_id x = None"
    and "\<forall>n rq v. post_try (http_post r n rq) = Inr v \<longrightarrow> (\<exists>p. 0 < p \<and> v = Some p)"
  shows "loop_cluster_id st1 = loop_cluster_id st
         \<and> (\<exists>p. 0 < p \<and> signalementid st1 = Some p
                \<and> reference (database st1) (core_id x) = Some (sqlite_integer (real_of (run_sqlite r)) p))"
proof -
  from assms(1) obtain msg st0 where
    d: "emission_decide r st (x\<lparr> details_descriptionstr := msg \<rparr>) = Inr st0" and
    p: "emission_persist r st0 (x\<lparr> details_descriptionstr := msg \<rparr>) = Inr st1"
    by (rule emission_issue_parts)
  from emission_decide_standalone [OF d _ assms(3)] assms(2)
  obtain q where q: "loop_cluster_id st0 = loop_cluster_id st" "0 < q" "signalementid st0 = Some q"
    by auto
  from emission_persist_effect(1,2) [OF p] emission_persist_effect(5) [OF p q(3)] q
  show ?thesis by simp
qed

lemma emission_issue_new_cluster:
  assumes "emission_issue r st x = Inr st1" and "cluster_id x = Some c"
    and "loop_cluster_id st \<noteq> Some c"
    and "\<forall>n rq v. post_try (http_post r n rq) = Inr v \<longrightarrow> (\<exists>p. 0 < p \<and> v = Some p)"
  shows "loop_cluster_id st1 = Some c
         \<and> (\<exists>p. 0 < p \<and> signalementid st1 = Some p
                \<and> reference (database st1) (core_id x) = Some (sqlite_integer (real_of (run_sqlite r)) p))"
proof -
  from assms(1) obtain msg st0 where
    d: "emission_decide r st (x\<lparr> details_descriptionstr := msg \<rparr>) = Inr st0" and
    p: "emission_persist r st0 (x\<lparr> details_descriptionstr := msg \<rparr>) = Inr st1"
    by (rule emission_issue_parts)
  from emission_decide_new_cluster [OF d _ assms(3,4)] assms(2)
  obtain q where q: "loop_cluster_id st0 = Some c" "0 < q" "signalementid st0 = Some q"
    by auto
  from emission_persist_effect(1,2) [OF p] emission_persist_effect(5) [OF p q(3)] q
  show ?thesis by simp
qed

lemma emission_issue_same_cluster:
  assumes "emission_issue r st x = Inr st1" and "cluster_id x = Some c"
    and "loop_cluster_id st = Some c"
  shows "loop_cluster_id st1 = Some c
         \<and> (\<exists>s. signalementid st = Some s \<and> signalementid st1 = Some (- \<bar>s\<bar>)
                \<and> reference (database st1) (core_id x) = Some (sqlite_integer (real_of (run_sqlite r)) (- \<bar>s\<bar>)))"
proof -
  from assms(1) obtain msg st0 where
    d: "emission_decide r st (x\<lparr> details_descriptionstr := msg \<rparr>) = Inr st0" and
    p: "emission_persist r st0 (x\<lparr> details_descriptionstr := msg \<rparr>) = Inr st1"
    by (rule emission_issue_parts)
  from emission_decide_same_cluster [OF d _ assms(3)] assms(2)
  obtain s where s: "loop_cluster_id st0 = Some c" "signalementid st = Some s"
    "signalementid st0 = Some (- \<bar>s\<bar>)"
    by auto
  from emission_persist_effect(1,2) [OF p] emission_persist_effect(5) [OF p s(3)] s
  show ?thesis by simp
qed

text \<open>
  What the row of an issue holds once the loop has persisted it: the identifier, the
  timestamp of the run, and as status the mode of the run under a positive identifier
  and the text \<^verbatim>\<open>None\<close> under any other.
\<close>

lemma emission_issue_row:
  assumes "emission_issue r st x = Inr st1" and "signalementid st1 = Some i"
  shows "\<exists>row. stored (database st1) (core_id x) = Some row
           \<and> col_espaceco_signalement_id row = Some (sqlite_integer (real_of (run_sqlite r)) i)
           \<and> col_espaceco_signalement_status_refresh_timestamp row
               = Some (issuesSignalementTimestamp r)
           \<and> col_espaceco_signalement_status row
               = Some (if 0 < i then choice_text (type_signalement r) else ''None'')"
proof -
  from assms(1) obtain msg st0 where
    p: "emission_persist r st0 (x\<lparr> details_descriptionstr := msg \<rparr>) = Inr st1"
    by (rule emission_issue_parts)
  from emission_persist_effect(2) [OF p] assms(2) have s0: "signalementid st0 = Some i"
    by simp
  with p obtain db where
    u: "update_signalement (run_sqlite r) (database st0)
          (x\<lparr> details_descriptionstr := msg,
               espaceco_signalement_id := Some i,
               espaceco_signalement_status_refresh_timestamp :=
                 Some (issuesSignalementTimestamp r),
               espaceco_signalement_status :=
                 (if i > 0 then Some (choice_text (type_signalement r)) else None) \<rparr>) = Inr db"
    and st1: "database st1 = db"
    by (auto simp: emission_persist_def split: sum.splits)
  have read: "sql_unquote (py_str (espaceco_signalement_status
      (x\<lparr> details_descriptionstr := msg,
           espaceco_signalement_id := Some i,
           espaceco_signalement_status_refresh_timestamp :=
             Some (issuesSignalementTimestamp r),
           espaceco_signalement_status :=
             (if i > 0 then Some (choice_text (type_signalement r)) else None) \<rparr>)))
    = Some (if 0 < i then choice_text (type_signalement r) else ''None'')"
    by (simp add: emission_status_read del: sql_unquote.simps)
  from update_signalement_stored(2) [OF u read] st1 show ?thesis
    by auto
qed

subsection \<open>The whole loop over a cluster-ordered sequence\<close>

lemma members_Cons:
  "members c (x # xs) = (if cluster_id x = Some c then x # members c xs else members c xs)"
  by (simp add: members_def)

lemma members_nonempty_iff: "members c xs \<noteq> [] \<longleftrightarrow> Some c \<in> cluster_id ` set xs"
  by (force simp: members_def filter_empty_conv image_iff)

lemma clusters_adjacent_next:
  assumes "clusters_adjacent (x # xs)" and "cluster_id x = Some c" and "members c xs \<noteq> []"
  shows "cluster_id (hd xs) = Some c"
proof (rule ccontr)
  assume no: "cluster_id (hd xs) \<noteq> Some c"
  from assms(3) have "xs \<noteq> []" by (auto simp: members_def)
  with no have "dropWhile (\<lambda>y. cluster_id y = Some c) xs = xs"
    by (cases xs) simp_all
  with assms(1,2) have "Some c \<notin> cluster_id ` set xs" by simp
  with assms(3) show False by (simp add: members_nonempty_iff)
qed

text \<open>
  The invariant of the loop. When the rest of the sequence still holds members of the
  cluster the loop is in, the rest begins with one of them and \<^verbatim>\<open>signalementid\<close> is an
  identifier other than 0. Then the members of that cluster in the rest all get the
  negated absolute value of \<^verbatim>\<open>signalementid\<close>, and every other cluster of the rest gets a
  positive identifier on its first member and the negation on the others.
\<close>

lemma emission_loop_clusters:
  assumes "emission_loop r st xs = Inr st'"
    and "distinct (map core_id xs)"
    and "clusters_adjacent xs"
    and "\<forall>n rq v. post_try (http_post r n rq) = Inr v \<longrightarrow> (\<exists>p. 0 < p \<and> v = Some p)"
    and "\<forall>c'. loop_cluster_id st = Some c' \<and> members c' xs \<noteq> [] \<longrightarrow>
           (\<exists>s. signalementid st = Some s \<and> s \<noteq> 0) \<and> cluster_id (hd xs) = Some c'"
    and "members c xs \<noteq> []"
  shows "if loop_cluster_id st = Some c
         then \<forall>x \<in> set (members c xs).
                reference (database st') (core_id x)
                  = Some (sqlite_integer (real_of (run_sqlite r)) (- \<bar>the (signalementid st)\<bar>))
         else \<exists>p. 0 < p
                \<and> reference (database st') (core_id (hd (members c xs))) = Some (sqlite_integer (real_of (run_sqlite r)) p)
                \<and> (\<forall>x \<in> set (tl (members c xs)).
                      reference (database st') (core_id x) = Some (sqlite_integer (real_of (run_sqlite r)) (- p)))"
  using assms
proof (induction xs arbitrary: st)
  case Nil
  then show ?case by (simp add: members_def)
next
  case (Cons x xs)
  note pos = Cons.prems(4)
  from Cons.prems(1) obtain st1 where
    step: "emission_issue r st x = Inr st1" and rest: "emission_loop r st1 xs = Inr st'"
    by (auto split: sum.splits)
  from Cons.prems(2) have fresh: "core_id x \<notin> core_id ` set xs" and dist: "distinct (map core_id xs)"
    by auto
  from Cons.prems(3) have adj: "clusters_adjacent xs" by simp
  have keep: "reference (database st') (core_id x) = reference (database st1) (core_id x)"
    by (rule emission_loop_other_key [OF rest fresh])
  have inv_here: "cluster_id x = Some c'" "\<exists>s. signalementid st = Some s \<and> s \<noteq> 0"
    if "loop_cluster_id st = Some c'" "members c' (x # xs) \<noteq> []" for c'
    using Cons.prems(5) that by auto
  consider (standalone) "cluster_id x = None"
    | (new) cx where "cluster_id x = Some cx" "loop_cluster_id st \<noteq> Some cx"
    | (same) cx where "cluster_id x = Some cx" "loop_cluster_id st = Some cx"
    by (cases "cluster_id x") auto
  then show ?case
  proof cases
    case standalone
    from emission_issue_standalone [OF step standalone pos]
    have l1: "loop_cluster_id st1 = loop_cluster_id st" by simp
    have out: "loop_cluster_id st \<noteq> Some c'" if "members c' xs \<noteq> []" for c'
      using inv_here(1) [of c'] that standalone by (auto simp: members_Cons)
    have inv1: "\<forall>c'. loop_cluster_id st1 = Some c' \<and> members c' xs \<noteq> [] \<longrightarrow>
           (\<exists>s. signalementid st1 = Some s \<and> s \<noteq> 0) \<and> cluster_id (hd xs) = Some c'"
      using out l1 by auto
    from Cons.prems(6) standalone have mem: "members c xs \<noteq> []" "members c (x # xs) = members c xs"
      by (simp_all add: members_Cons)
    from Cons.IH [OF rest dist adj pos inv1 mem(1)] out [OF mem(1)] l1 mem(2)
    show ?thesis by simp
  next
    case new
    from emission_issue_new_cluster [OF step new pos] obtain p where
      l1: "loop_cluster_id st1 = Some cx" and p: "0 < p" "signalementid st1 = Some p"
        "reference (database st1) (core_id x) = Some (sqlite_integer (real_of (run_sqlite r)) p)"
      by auto
    have inv1: "\<forall>c'. loop_cluster_id st1 = Some c' \<and> members c' xs \<noteq> [] \<longrightarrow>
           (\<exists>s. signalementid st1 = Some s \<and> s \<noteq> 0) \<and> cluster_id (hd xs) = Some c'"
      using l1 p clusters_adjacent_next [OF Cons.prems(3) new(1)] by auto
    show ?thesis
    proof (cases "c = cx")
      case True
      have others: "\<forall>y \<in> set (members c xs).
                      reference (database st') (core_id y) = Some (sqlite_integer (real_of (run_sqlite r)) (- p))"
      proof (cases "members c xs = []")
        case True
        then show ?thesis by simp
      next
        case False
        from Cons.IH [OF rest dist adj pos inv1 False] l1 p \<open>c = cx\<close>
        show ?thesis by simp
      qed
      from new \<open>c = cx\<close> have "members c (x # xs) = x # members c xs"
        by (simp add: members_Cons)
      with others keep p new(2) \<open>c = cx\<close> show ?thesis by auto
    next
      case False
      with new have mem: "members c (x # xs) = members c xs" by (simp add: members_Cons)
      with Cons.prems(6) have ne: "members c xs \<noteq> []" by simp
      have "loop_cluster_id st \<noteq> Some c"
        using inv_here(1) [of c] Cons.prems(6) new(1) False by auto
      with Cons.IH [OF rest dist adj pos inv1 ne] l1 False mem show ?thesis by simp
    qed
  next
    case same
    from emission_issue_same_cluster [OF step same] obtain s where
      l1: "loop_cluster_id st1 = Some cx" and s: "signalementid st = Some s"
        "signalementid st1 = Some (- \<bar>s\<bar>)"
        "reference (database st1) (core_id x) = Some (sqlite_integer (real_of (run_sqlite r)) (- \<bar>s\<bar>))"
      by auto
    from same(1) have "members cx (x # xs) \<noteq> []" by (simp add: members_Cons)
    from inv_here(2) [OF same(2) this] s(1) have "s \<noteq> 0" by simp
    have inv1: "\<forall>c'. loop_cluster_id st1 = Some c' \<and> members c' xs \<noteq> [] \<longrightarrow>
           (\<exists>s. signalementid st1 = Some s \<and> s \<noteq> 0) \<and> cluster_id (hd xs) = Some c'"
      using l1 s(2) \<open>s \<noteq> 0\<close> clusters_adjacent_next [OF Cons.prems(3) same(1)] by auto
    show ?thesis
    proof (cases "c = cx")
      case True
      have others: "\<forall>y \<in> set (members c xs).
                      reference (database st') (core_id y) = Some (sqlite_integer (real_of (run_sqlite r)) (- \<bar>s\<bar>))"
      proof (cases "members c xs = []")
        case True
        then show ?thesis by simp
      next
        case False
        from Cons.IH [OF rest dist adj pos inv1 False] l1 s \<open>c = cx\<close>
        show ?thesis by simp
      qed
      from same \<open>c = cx\<close> have "members c (x # xs) = x # members c xs"
        by (simp add: members_Cons)
      with others keep s same(2) \<open>c = cx\<close> show ?thesis by auto
    next
      case False
      with same have mem: "members c (x # xs) = members c xs" by (simp add: members_Cons)
      with Cons.prems(6) have ne: "members c xs \<noteq> []" by simp
      from Cons.IH [OF rest dist adj pos inv1 ne] l1 same(2) False mem show ?thesis by simp
    qed
  qed
qed

lemmas example_defs =
  example_run_def report_text_def eligible_row_def example_row_def example_issue_def
  correlate_def issue_row_to_issue_instance_def py_str_def persisted_def persisted_row_def
  emission_start_def example_sqlite_def uuid_eq uuid_text_Uuid

lemmas emission_defs =
  emission_issue_def emission_decide_def emission_persist_def update_signalement_def
  post_signalement_def post_try_def post_except_def req_dict_def sqlite_integer_def

lemma hd_or_tl: "xs \<noteq> [] \<Longrightarrow> x \<in> set xs \<Longrightarrow> x = hd xs \<or> x \<in> set (tl xs)"
  by (cases xs) auto

text \<open>
  C1, as the code has it. Take an emission run over a sequence of issues with pairwise
  distinct external keys in which the members of each cluster key are adjacent, let every
  creation call that returns give a positive identifier, and let the loop complete. Then
  among the issues sharing a cluster key, the first in sequence order has a positive
  persisted report reference, every other member has the negation of that identifier, and
  the first is the only one whose reference is positive.
\<close>

theorem emission_cluster_owner:
  assumes "emission_loop r (emission_start db) issues = Inr st"
    and "distinct (map core_id issues)"
    and "clusters_adjacent issues"
    and "\<forall>n rq v. post_try (http_post r n rq) = Inr v \<longrightarrow> (\<exists>p. 0 < p \<and> v = Some p)"
    and "members c issues \<noteq> []"
  shows "\<exists>p. 0 < p
           \<and> reference (database st) (core_id (hd (members c issues))) = Some p
           \<and> (\<forall>x \<in> set (tl (members c issues)).
                 reference (database st) (core_id x) = Some (- p))
           \<and> (\<forall>x \<in> set (members c issues).
                 (\<exists>q. 0 < q \<and> reference (database st) (core_id x) = Some q)
                   \<longleftrightarrow> x = hd (members c issues))"
proof -
  have start: "\<forall>c'. loop_cluster_id (emission_start db) = Some c' \<and> members c' issues \<noteq> [] \<longrightarrow>
      (\<exists>s. signalementid (emission_start db) = Some s \<and> s \<noteq> 0)
      \<and> cluster_id (hd issues) = Some c'"
    by (simp add: emission_start_def)
  have "loop_cluster_id (emission_start db) \<noteq> Some c" by (simp add: emission_start_def)
  with emission_loop_clusters [OF assms(1-4) start assms(5)] obtain p0 where
    p0: "0 < p0"
      "reference (database st) (core_id (hd (members c issues)))
         = Some (sqlite_integer (real_of (run_sqlite r)) p0)"
      "\<forall>x \<in> set (tl (members c issues)).
         reference (database st) (core_id x)
           = Some (sqlite_integer (real_of (run_sqlite r)) (- p0))"
    by auto
  define p where "p = sqlite_integer (real_of (run_sqlite r)) p0"
  from p0 have
    p: "0 < p" "reference (database st) (core_id (hd (members c issues))) = Some p"
      "\<forall>x \<in> set (tl (members c issues)). reference (database st) (core_id x) = Some (- p)"
    by (simp_all add: p_def sqlite_integer_pos sqlite_integer_minus)
  have "(\<exists>q. 0 < q \<and> reference (database st) (core_id x) = Some q) \<longleftrightarrow> x = hd (members c issues)"
    if "x \<in> set (members c issues)" for x
  proof
    assume "\<exists>q. 0 < q \<and> reference (database st) (core_id x) = Some q"
    then obtain q where q: "0 < q" "reference (database st) (core_id x) = Some q" by auto
    show "x = hd (members c issues)"
    proof (rule ccontr)
      assume "x \<noteq> hd (members c issues)"
      with hd_or_tl [OF assms(5) that] have "x \<in> set (tl (members c issues))" by simp
      with p(3) q p(1) show False by auto
    qed
  next
    assume "x = hd (members c issues)"
    with p show "\<exists>q. 0 < q \<and> reference (database st) (core_id x) = Some q" by auto
  qed
  with p show ?thesis by blast
qed

theorem emission_cluster_owner_witness:
  "reference (database after_two_clusters) (Uuid ''a'') = Some 101
   \<and> reference (database after_two_clusters) (Uuid ''b'') = Some (- 101)"
proof -
  have run: "emission_loop (example_run service_counting) (emission_start table_two_clusters)
               two_clusters = Inr after_two_clusters"
    by (simp add: two_clusters_def table_two_clusters_def after_two_clusters_def
                  example_defs emission_defs service_counting_def)
  have keys: "distinct (map core_id two_clusters)"
    by (simp add: two_clusters_def example_defs)
  have adj: "clusters_adjacent two_clusters"
    by (simp add: two_clusters_def example_defs)
  have pos: "\<forall>n rq v. post_try (http_post (example_run service_counting) n rq) = Inr v
               \<longrightarrow> (\<exists>p. 0 < p \<and> v = Some p)"
    by (simp add: example_run_def service_counting_def post_try_def)
  have mem: "members ''K1'' two_clusters
               = [example_issue ''a'' (Some ''K1''), example_issue ''b'' (Some ''K1'')]"
    by (simp add: members_def two_clusters_def example_defs)
  then have ne: "members ''K1'' two_clusters \<noteq> []" by simp
  have a: "core_id (example_issue ''a'' (Some ''K1'')) = Uuid ''a''"
    and b: "core_id (example_issue ''b'' (Some ''K1'')) = Uuid ''b''"
    by (simp_all add: example_defs)
  from emission_cluster_owner [OF run keys adj pos ne] obtain p where
    owner: "reference (database after_two_clusters) (core_id (hd (members ''K1'' two_clusters)))
              = Some p"
    and linked: "\<forall>x \<in> set (tl (members ''K1'' two_clusters)).
              reference (database after_two_clusters) (core_id x) = Some (- p)"
    by blast
  from owner have pa: "reference (database after_two_clusters) (Uuid ''a'') = Some p"
    by (simp only: mem list.sel a)
  from linked have pb: "reference (database after_two_clusters) (Uuid ''b'') = Some (- p)"
    by (simp only: mem list.sel list.set ball_simps b)
  have "reference (database after_two_clusters) (Uuid ''a'') = Some 101"
    by (simp add: reference_def stored_def after_two_clusters_def eligible_row_def
                  example_row_def)
  with pa have "p = 101" by simp
  with pa pb show ?thesis by simp
qed

text \<open>
  C1, as stated, fails: with a service that answers identifier 0 the loop completes, and
  both members of cluster K1 hold reference 0; none is positive.
\<close>

theorem emission_cluster_owner_counterexample:
  "persisted (emission_loop (example_run service_zero)
      (emission_start [eligible_row ''a'', eligible_row ''b''])
      [example_issue ''a'' (Some ''K1''), example_issue ''b'' (Some ''K1'')])
   = Inr [(''a'', Some 0, Some ''None'', Some 7), (''b'', Some 0, Some ''None'', Some 7)]"
  by (simp add: example_defs emission_defs service_zero_def)

text \<open>
  C5 on the code: in a run in mode \<^verbatim>\<open>submit\<close> at instant 7, the owner a of cluster K1 is
  persisted with status \<^verbatim>\<open>submit\<close> and the linked issue b with the same timestamp, but
  the status column of b holds the text \<^verbatim>\<open>None\<close> (\<open>Some ''None''\<close>), not \<^verbatim>\<open>NULL\<close>
  (which would be \<open>None\<close>).
\<close>

theorem emission_linked_status_text:
  "persisted (emission_loop (example_run service_counting)
      (emission_start [eligible_row ''a'', eligible_row ''b''])
      [example_issue ''a'' (Some ''K1''), example_issue ''b'' (Some ''K1'')])
   = Inr [(''a'', Some 101, Some ''submit'', Some 7),
          (''b'', Some (- 101), Some ''None'', Some 7)]"
  by (simp add: example_defs emission_defs service_counting_def)

subsection \<open>The loop of the source and the loop of the specification\<close>

lemma emission_decide_keeps_cluster:
  "emission_decide r st x = Inr st1 \<Longrightarrow> cluster_id x = None \<Longrightarrow>
     loop_cluster_id st1 = loop_cluster_id st"
  by (auto simp: emission_decide_def split: sum.splits)

lemma emission_issue_keeps_cluster:
  assumes "emission_issue r st x = Inr st1" and "cluster_id x = None"
  shows "loop_cluster_id st1 = loop_cluster_id st"
proof -
  from assms(1) obtain msg st0 where
    d: "emission_decide r st (x\<lparr> details_descriptionstr := msg \<rparr>) = Inr st0" and
    p: "emission_persist r st0 (x\<lparr> details_descriptionstr := msg \<rparr>) = Inr st1"
    by (rule emission_issue_parts)
  from emission_decide_keeps_cluster [OF d] assms(2) emission_persist_effect(1) [OF p]
  show ?thesis by simp
qed

lemma emission_persist_cluster:
  "emission_persist r (st\<lparr> loop_cluster_id := k \<rparr>) x =
     (case emission_persist r st x of
        Inl exc \<Rightarrow> Inl exc
      | Inr st1 \<Rightarrow> Inr (st1\<lparr> loop_cluster_id := k \<rparr>))"
  by (simp add: emission_persist_def split: option.splits sum.splits)

lemma emission_decide_cluster:
  assumes "\<And>c. cluster_id x = Some c \<Longrightarrow> loop_cluster_id st = Some c \<longleftrightarrow> k = Some c"
  shows "emission_decide_reset r (st\<lparr> loop_cluster_id := k \<rparr>) x =
     (case emission_decide r st x of
        Inl exc \<Rightarrow> Inl exc
      | Inr st1 \<Rightarrow> Inr (st1\<lparr> loop_cluster_id := cluster_id x \<rparr>))"
proof (cases "cluster_id x")
  case None
  then show ?thesis
    by (simp add: emission_decide_reset_def emission_decide_def split: sum.splits)
next
  case (Some c)
  show ?thesis
  proof (cases "loop_cluster_id st = Some c")
    case True
    with assms Some have "k = Some c" by simp
    with True Some show ?thesis
      by (simp add: emission_decide_reset_def emission_decide_def split: option.splits)
  next
    case False
    with assms Some have "k \<noteq> Some c" by simp
    with False Some show ?thesis
      by (simp add: emission_decide_reset_def emission_decide_def split: sum.splits)
  qed
qed

lemma emission_decide_carries:
  "emission_decide r st x = Inr st1 \<Longrightarrow>
     loop_cluster_id st1 = (if cluster_id x = None then loop_cluster_id st else cluster_id x)"
  by (auto simp: emission_decide_def split: sum.splits option.splits if_splits)

text \<open>
  One issue in the two loops, from states that differ at most in the carried cluster key
  and agree on whether the key of the issue is the carried one: the same exception, or
  states that differ at most in the carried cluster key.
\<close>

lemma emission_issue_reset_step:
  assumes "\<And>c. cluster_id x = Some c \<Longrightarrow> loop_cluster_id st = Some c \<longleftrightarrow> k = Some c"
  shows "emission_issue_reset r (st\<lparr> loop_cluster_id := k \<rparr>) x =
     (case emission_issue r st x of
        Inl exc \<Rightarrow> Inl exc
      | Inr st1 \<Rightarrow> Inr (st1\<lparr> loop_cluster_id := cluster_id x \<rparr>))"
proof (cases "markdown_report r x")
  case (Inl exc)
  then show ?thesis by (simp add: emission_issue_reset_def emission_issue_def)
next
  case (Inr msg)
  have key: "cluster_id (x\<lparr> details_descriptionstr := msg \<rparr>) = cluster_id x" by simp
  have d: "emission_decide_reset r (st\<lparr> loop_cluster_id := k \<rparr>)
             (x\<lparr> details_descriptionstr := msg \<rparr>) =
     (case emission_decide r st (x\<lparr> details_descriptionstr := msg \<rparr>) of
        Inl exc \<Rightarrow> Inl exc
      | Inr st1 \<Rightarrow> Inr (st1\<lparr> loop_cluster_id := cluster_id x \<rparr>))"
    using emission_decide_cluster [of "x\<lparr> details_descriptionstr := msg \<rparr>" st k r] assms
    by (simp cong: sum.case_cong)
  show ?thesis
    by (simp add: emission_issue_reset_def emission_issue_def Inr d emission_persist_cluster
             split: sum.splits)
qed

lemma emission_issue_carries:
  assumes "emission_issue r st x = Inr st1"
  shows "loop_cluster_id st1 = (if cluster_id x = None then loop_cluster_id st else cluster_id x)"
proof -
  from assms(1) obtain msg st0 where
    d: "emission_decide r st (x\<lparr> details_descriptionstr := msg \<rparr>) = Inr st0" and
    p: "emission_persist r st0 (x\<lparr> details_descriptionstr := msg \<rparr>) = Inr st1"
    by (rule emission_issue_parts)
  from emission_decide_carries [OF d] emission_persist_effect(1) [OF p]
  show ?thesis by simp
qed

text \<open>
  The invariant that relates the two loops over a cluster-ordered sequence: the loop of
  the specification carries the cluster key of the source or none, and when the rest of
  the sequence still holds a member of the cluster the source carries, both carry it and
  the rest begins with such a member.
\<close>

lemma emission_loop_reset_related:
  assumes "clusters_adjacent xs"
    and "k = loop_cluster_id st \<or> k = None"
    and "\<forall>c. loop_cluster_id st = Some c \<and> Some c \<in> cluster_id ` set xs \<longrightarrow>
           k = Some c \<and> cluster_id (hd xs) = Some c"
  shows "observed (emission_loop r st xs)
         = observed (emission_loop_reset r (st\<lparr> loop_cluster_id := k \<rparr>) xs)"
  using assms
proof (induction xs arbitrary: st k)
  case Nil
  show ?case by (simp add: observed_def)
next
  case (Cons x xs)
  have agree: "loop_cluster_id st = Some c \<longleftrightarrow> k = Some c" if "cluster_id x = Some c" for c
  proof
    assume "loop_cluster_id st = Some c"
    with that Cons.prems(3) show "k = Some c" by simp
  next
    assume "k = Some c"
    with Cons.prems(2) show "loop_cluster_id st = Some c" by auto
  qed
  have step: "emission_issue_reset r (st\<lparr> loop_cluster_id := k \<rparr>) x =
     (case emission_issue r st x of
        Inl exc \<Rightarrow> Inl exc
      | Inr st1 \<Rightarrow> Inr (st1\<lparr> loop_cluster_id := cluster_id x \<rparr>))"
    by (rule emission_issue_reset_step) (rule agree)
  show ?case
  proof (cases "emission_issue r st x")
    case (Inl exc)
    with step show ?thesis by (simp add: observed_def)
  next
    case (Inr st1)
    from Cons.prems(1) have adj: "clusters_adjacent xs" by simp
    have carries: "loop_cluster_id st1
                   = (if cluster_id x = None then loop_cluster_id st else cluster_id x)"
      by (rule emission_issue_carries [OF Inr])
    then have near: "cluster_id x = loop_cluster_id st1 \<or> cluster_id x = None" by auto
    have inv: "\<forall>c. loop_cluster_id st1 = Some c \<and> Some c \<in> cluster_id ` set xs \<longrightarrow>
           cluster_id x = Some c \<and> cluster_id (hd xs) = Some c"
    proof (intro allI impI, elim conjE)
      fix c assume c: "loop_cluster_id st1 = Some c" and more: "Some c \<in> cluster_id ` set xs"
      show "cluster_id x = Some c \<and> cluster_id (hd xs) = Some c"
      proof (cases "cluster_id x")
        case None
        with carries c have "loop_cluster_id st = Some c" by simp
        moreover from more have "Some c \<in> cluster_id ` set (x # xs)" by auto
        ultimately have "cluster_id (hd (x # xs)) = Some c" using Cons.prems(3) by blast
        with None show ?thesis by simp
      next
        case (Some cx)
        with carries c have cx: "cx = c" by simp
        from more have "members c xs \<noteq> []" by (simp add: members_nonempty_iff)
        from clusters_adjacent_next [OF Cons.prems(1) _ this] Some cx
        show ?thesis by simp
      qed
    qed
    from Cons.IH [OF adj near inv] Inr step show ?thesis by simp
  qed
qed

text \<open>
  C2, as the code has it. An issue without cluster key leaves the carried cluster key as
  it is: the loop does not reset it. Over a cluster-ordered sequence, in which the members
  of each cluster key are adjacent, this cannot be observed: the loop ends with the same
  exception, or with the same identifier, the same number of reports created and the same
  table, as the loop of the specification, which resets the key.
\<close>

theorem emission_standalone_keeps_cluster:
  "(cluster_id x = None \<longrightarrow> emission_issue r st x = Inr st1 \<longrightarrow>
      loop_cluster_id st1 = loop_cluster_id st)
   \<and> (clusters_adjacent issues \<longrightarrow>
        observed (emission_loop r (emission_start db) issues)
        = observed (emission_loop_reset r (emission_start db) issues))"
proof (intro conjI impI)
  assume "cluster_id x = None" and "emission_issue r st x = Inr st1"
  then show "loop_cluster_id st1 = loop_cluster_id st"
    by (simp add: emission_issue_keeps_cluster)
next
  assume adj: "clusters_adjacent issues"
  have same: "(emission_start db)\<lparr> loop_cluster_id := None \<rparr> = emission_start db"
    by (simp add: emission_start_def)
  have "observed (emission_loop r (emission_start db) issues)
        = observed (emission_loop_reset r ((emission_start db)\<lparr> loop_cluster_id := None \<rparr>) issues)"
    by (rule emission_loop_reset_related [OF adj]) (simp_all add: emission_start_def)
  then show "observed (emission_loop r (emission_start db) issues)
        = observed (emission_loop_reset r (emission_start db) issues)"
    by (simp only: same)
qed

theorem emission_standalone_keeps_cluster_witness:
  "loop_cluster_id after_standalone = Some ''K1''
   \<and> observed (emission_loop_reset (example_run service_counting)
         (emission_start table_two_clusters) two_clusters)
       = Inr (Some (- 103), 3, database after_two_clusters)"
proof -
  have null: "cluster_id (example_issue ''s'' None) = None"
    by (simp add: example_defs)
  have step: "emission_issue (example_run service_counting) after_cluster
                (example_issue ''s'' None) = Inr after_standalone"
    by (simp add: after_cluster_def after_standalone_def example_defs emission_defs
                  service_counting_def)
  have adj: "clusters_adjacent two_clusters"
    by (simp add: two_clusters_def example_defs)
  have run: "emission_loop (example_run service_counting) (emission_start table_two_clusters)
               two_clusters = Inr after_two_clusters"
    by (simp add: two_clusters_def table_two_clusters_def after_two_clusters_def
                  example_defs emission_defs service_counting_def)
  from emission_standalone_keeps_cluster
         [where x = "example_issue ''s'' None" and r = "example_run service_counting"
            and st = after_cluster and ?st1.0 = after_standalone
            and issues = two_clusters and db = table_two_clusters]
       null step adj
  have kept: "loop_cluster_id after_standalone = loop_cluster_id after_cluster"
    and same: "observed (emission_loop (example_run service_counting)
                 (emission_start table_two_clusters) two_clusters)
               = observed (emission_loop_reset (example_run service_counting)
                   (emission_start table_two_clusters) two_clusters)"
    by blast+
  from kept have "loop_cluster_id after_standalone = Some ''K1''"
    by (simp add: after_cluster_def)
  moreover
  from same run have "observed (emission_loop_reset (example_run service_counting)
         (emission_start table_two_clusters) two_clusters)
       = Inr (Some (- 103), 3, database after_two_clusters)"
    by (simp add: observed_def after_two_clusters_def)
  ultimately show ?thesis by (rule conjI)
qed

text \<open>
  C2, as stated, fails: after the member a of cluster K1 and the issue s without cluster
  key, which the spatial service delivers in this order, the loop still carries K1.
\<close>

theorem emission_standalone_reset_counterexample:
  "carried (emission_loop (example_run service_counting)
      (emission_start table_cluster_then_standalone) cluster_then_standalone)
   = Inr (Some ''K1'')"
  by (simp add: cluster_then_standalone_def table_cluster_then_standalone_def carried_def
                example_defs emission_defs service_counting_def)

text \<open>
  C6, as the code has it. When the creation call for an issue returns an identifier that
  is zero or negative, the issue is not refused and the run does not abort: no check of
  the sign exists. With a row for the issue in the table and an identifier that fits 64
  bits (\<open>-2^63\<close> at least), the identifier becomes the carried \<^verbatim>\<open>signalementid\<close> and the
  persisted report reference of the issue, and the loop goes on with the next issue.
\<close>

theorem emission_accepts_nonpositive_id:
  assumes "\<forall>rq. http_post r (reportcounter st) rq = Post_response 201 (Json_id (Some i))"
    and "- (2 ^ 63) \<le> i" and "i \<le> 0"
    and "markdown_report r x = Inr msg"
    and "cluster_id x = None \<or> cluster_id x \<noteq> loop_cluster_id st"
    and "core_id x \<in> col_core_id ` set (database st)"
  shows "\<exists>st1. emission_issue r st x = Inr st1
           \<and> signalementid st1 = Some i
           \<and> reference (database st1) (core_id x) = Some i
           \<and> emission_loop r st (x # xs) = emission_loop r st1 xs"
proof -
  let ?x = "x\<lparr> details_descriptionstr := msg \<rparr>"
  have post: "post_signalement (http_post r (reportcounter st)) lon lat m th ty sk = Inr (Some i)"
    for lon lat m th ty sk
    using assms(1) by (simp add: post_signalement_def post_try_def)
  from assms(5) post obtain st0 where
    d: "emission_decide r st ?x = Inr st0" and s0: "signalementid st0 = Some i"
      and db0: "database st0 = database st"
    by (cases "cluster_id x") (auto simp: emission_decide_def)
  let ?w = "?x\<lparr> espaceco_signalement_id := Some i,
                espaceco_signalement_status_refresh_timestamp :=
                  Some (issuesSignalementTimestamp r),
                espaceco_signalement_status :=
                  (if i > 0 then Some (choice_text (type_signalement r)) else None) \<rparr>"
  have read: "sql_unquote (py_str (espaceco_signalement_status ?w)) = Some ''None''"
    using assms(3) by (simp add: py_str_def)
  from assms(6) db0 obtain db1 where
    u: "update_signalement (run_sqlite r) (database st0) ?w = Inr db1"
    using update_signalement_succeeds
      [of ?w "issuesSignalementTimestamp r" i "''None''" "database st0" "run_sqlite r"] read
    by auto
  from u s0 have p: "emission_persist r st0 ?x = Inr (st0\<lparr> database := db1 \<rparr>)"
    by (simp add: emission_persist_def)
  from d p assms(4) have step: "emission_issue r st x = Inr (st0\<lparr> database := db1 \<rparr>)"
    by (simp add: emission_issue_def)
  from assms(2,3) have "sqlite_integer (real_of (run_sqlite r)) i = i"
    by (simp add: sqlite_integer_exact)
  with update_signalement_reference [OF u read, of "core_id x"]
  have "reference db1 (core_id x) = Some i" by simp
  with step s0 show ?thesis by simp
qed

theorem emission_accepts_nonpositive_id_witness:
  "\<exists>st1. emission_issue (example_run service_minus_7) before_standalone (example_issue ''s'' None)
            = Inr st1
     \<and> signalementid st1 = Some (- 7)
     \<and> reference (database st1) (core_id (example_issue ''s'' None)) = Some (- 7)
     \<and> emission_loop (example_run service_minus_7) before_standalone
          (example_issue ''s'' None # [])
        = emission_loop (example_run service_minus_7) st1 []"
proof -
  have reply: "\<forall>rq. http_post (example_run service_minus_7) (reportcounter before_standalone) rq
                 = Post_response 201 (Json_id (Some (- 7)))"
    by (simp add: example_run_def service_minus_7_def)
  have fits: "- (2 ^ 63) \<le> (- 7 :: int)" by simp
  have sign: "(- 7 :: int) \<le> 0" by simp
  have report: "markdown_report (example_run service_minus_7) (example_issue ''s'' None) = Inr ''r''"
    by (simp add: example_run_def report_text_def)
  have creates: "cluster_id (example_issue ''s'' None) = None
                 \<or> cluster_id (example_issue ''s'' None) \<noteq> loop_cluster_id before_standalone"
    by (simp add: example_defs)
  have row: "core_id (example_issue ''s'' None) \<in> col_core_id ` set (database before_standalone)"
    by (simp add: before_standalone_def example_defs)
  show ?thesis
    by (rule emission_accepts_nonpositive_id [OF reply fits sign report creates row])
qed

text \<open>
  C6, as stated, fails: the creation call for the issue s returns -7; the run completes
  and the table holds -7 as the report reference of s.
\<close>

theorem emission_abort_on_nonpositive_counterexample:
  "persisted (emission_loop (example_run service_minus_7) before_standalone
      [example_issue ''s'' None])
   = Inr [(''s'', Some (- 7), Some ''None'', Some 7)]"
  by (simp add: before_standalone_def example_defs emission_defs service_minus_7_def)

section \<open>Properties of the status refresh loop\<close>

subsection \<open>What the look-ups are made with\<close>

lemma get_status_signalement_sent:
  "snd (get_status_signalement service sent signalement) = sent @ [signalement]"
  by (simp add: get_status_signalement_def requests_get_def)

lemma refresh_issue_requested:
  "requested (snd (refresh_issue service engine t st obj))
     = requested st @ [espaceco_signalement_id obj]"
proof -
  obtain res sent where
    g: "get_status_signalement service (requested st) (espaceco_signalement_id obj)
          = (res, sent)"
    by (cases "get_status_signalement service (requested st) (espaceco_signalement_id obj)")
  with get_status_signalement_sent [of service "requested st" "espaceco_signalement_id obj"]
  have "sent = requested st @ [espaceco_signalement_id obj]" by simp
  with g show ?thesis
    by (simp add: refresh_issue_def split: sum.splits)
qed

lemma refresh_loop_requested:
  "\<exists>n \<le> length objs.
     requested (snd (refresh_loop service engine t st objs))
       = requested st @ map espaceco_signalement_id (take n objs)
     \<and> (fst (refresh_loop service engine t st objs) = None \<longrightarrow> n = length objs)"
proof (induction objs arbitrary: st)
  case Nil
  show ?case by simp
next
  case (Cons obj objs)
  obtain exc st1 where s: "refresh_issue service engine t st obj = (exc, st1)"
    by (cases "refresh_issue service engine t st obj")
  with refresh_issue_requested [of service engine t st obj]
  have r1: "requested st1 = requested st @ [espaceco_signalement_id obj]" by simp
  show ?case
  proof (cases exc)
    case (Some e)
    with s have loop: "refresh_loop service engine t st (obj # objs) = (Some e, st1)"
      by simp
    show ?thesis
    proof (intro exI [of _ 1] conjI)
      show "1 \<le> length (obj # objs)" by simp
      show "requested (snd (refresh_loop service engine t st (obj # objs)))
              = requested st @ map espaceco_signalement_id (take 1 (obj # objs))"
        unfolding loop using r1 by simp
      show "fst (refresh_loop service engine t st (obj # objs)) = None \<longrightarrow>
              1 = length (obj # objs)"
        unfolding loop by simp
    qed
  next
    case None
    with s have loop: "refresh_loop service engine t st (obj # objs)
                       = refresh_loop service engine t st1 objs"
      by simp
    from Cons.IH [of st1] obtain n where
      n1: "n \<le> length objs"
      and n2: "requested (snd (refresh_loop service engine t st1 objs))
                 = requested st1 @ map espaceco_signalement_id (take n objs)"
      and n3: "fst (refresh_loop service engine t st1 objs) = None \<longrightarrow> n = length objs"
      by (elim exE conjE)
    show ?thesis
    proof (intro exI [of _ "Suc n"] conjI)
      show "Suc n \<le> length (obj # objs)" using n1 by simp
      show "requested (snd (refresh_loop service engine t st (obj # objs)))
              = requested st @ map espaceco_signalement_id (take (Suc n) (obj # objs))"
        unfolding loop n2 r1 by simp
      show "fst (refresh_loop service engine t st (obj # objs)) = None \<longrightarrow>
              Suc n = length (obj # objs)"
        unfolding loop using n3 by simp
    qed
  qed
qed

text \<open>
  C3, as the code has it. The identifiers that the status look-ups of a refresh run are
  made with are the report references of the issues processed, in order and as the issues
  hold them: no absolute value is taken. The issues processed are all the issues when no
  exception ends the run, and the first ones up to the issue of the exception otherwise.
\<close>

theorem refresh_asks_stored_reference:
  "\<exists>n \<le> length objs.
     requested (snd (refresh_loop service engine t (refresh_start db) objs))
       = map espaceco_signalement_id (take n objs)
     \<and> (fst (refresh_loop service engine t (refresh_start db) objs) = None \<longrightarrow>
          n = length objs)"
  using refresh_loop_requested [of objs service engine t "refresh_start db"]
  by (simp add: refresh_start_def)

lemmas refresh_defs =
  refresh_issue_def get_status_signalement_def requests_get_def update_signalement_def
  sqlite_integer_def example_sqlite_def
  refresh_start_def get_issues_by_espacecosignalements_unclosed_def sql_where_def
  sql_not_in_def OC_UNCLOSED_STATUSES_def example_row_def
  issue_row_to_issue_instance_def py_str_def refreshed_def
  persisted_row_def uuid_eq uuid_text_Uuid

theorem refresh_asks_stored_reference_witness:
  "requested (snd (refresh_loop service_knows_101 example_sqlite 9 (refresh_start table_open)
      open_issues))
   = [Some 101, Some 105]"
proof -
  have run: "refresh_loop service_knows_101 example_sqlite 9 (refresh_start table_open)
               open_issues = (None, after_refresh)"
    by (simp add: open_issues_def table_open_def after_refresh_def service_knows_101_def
                  refresh_defs)
  have ids: "map espaceco_signalement_id open_issues = [Some 101, Some 105]"
    by (simp add: open_issues_def table_open_def refresh_defs)
  from refresh_asks_stored_reference
         [of open_issues service_knows_101 example_sqlite 9 table_open]
  obtain n where
    n: "requested (snd (refresh_loop service_knows_101 example_sqlite 9
          (refresh_start table_open) open_issues))
        = map espaceco_signalement_id (take n open_issues)"
      "fst (refresh_loop service_knows_101 example_sqlite 9 (refresh_start table_open)
          open_issues) = None \<longrightarrow> n = length open_issues"
    by (elim exE conjE)
  from n(2) run have "n = length open_issues" by simp
  with n(1) ids show ?thesis by simp
qed

text \<open>
  C3, as stated, fails on the table an emission run leaves for a cluster of two: the
  linked issue b, stored with reference -101, is selected (its status is the text
  \<^verbatim>\<open>None\<close>) and the look-up is made with -101, not with 101. The service knows report
  101 as \<^verbatim>\<open>valid\<close> and nothing of -101, so the row of b keeps its status and gets no
  timestamp, where a look-up with the absolute value would have written \<^verbatim>\<open>valid\<close>.
\<close>

theorem refresh_absolute_value_counterexample:
  "refreshed (refresh_loop service_knows_101 example_sqlite 9 (refresh_start table_linked)
      (get_issues_by_espacecosignalements_unclosed table_linked))
   = (None,
      [(''a'', Some 101, Some ''valid'', Some 9), (''b'', Some (- 101), Some ''None'', None)],
      [Some 101, Some (- 101)])"
  by (simp add: table_linked_def service_knows_101_def refresh_defs)

subsection \<open>What a look-up writes\<close>








section \<open>Properties of the correlation loops\<close>

lemma correlate_core_id [simp]: "core_id (correlate row x) = core_id x"
  by (simp add: correlate_def)

lemma correlate_twice [simp]: "correlate row (correlate row' x) = correlate row x"
  by (simp add: correlate_def)

lemma core_id_heap_update [simp]:
  "core_id (heap[a := correlate row (heap ! a)] ! b) = core_id (heap ! b)"
  by (cases "a < length heap"; cases "b = a") (simp_all add: list_update_beyond)

subsection \<open>The inner loop\<close>

lemma scan_issues_length [simp]:
  "length (fst (scan_issues row as (heap, out))) = length heap"
  by (induction as arbitrary: heap out) simp_all

lemma scan_issues_order:
  assumes "distinct as" and "\<forall>a \<in> set as. a < length heap"
  shows "snd (scan_issues row as (heap, out))
           = out @ filter (\<lambda>a. core_id (heap ! a) = row_core_id row) as"
  using assms
proof (induction as arbitrary: heap out)
  case Nil
  then show ?case by simp
next
  case (Cons a as)
  let ?heap = "heap[a := correlate row (heap ! a)]"
  from Cons.prems have a: "a \<notin> set as" "a < length heap"
    and rest: "distinct as" "\<forall>b \<in> set as. b < length heap"
    by auto
  have same: "filter (\<lambda>b. core_id (?heap ! b) = row_core_id row) as
                = filter (\<lambda>b. core_id (heap ! b) = row_core_id row) as"
    by simp
  show ?case
  proof (cases "core_id (heap ! a) = row_core_id row")
    case True
    with Cons.IH [of ?heap "out @ [a]"] rest same show ?thesis by simp
  next
    case False
    with Cons.IH [of heap out] rest show ?thesis by simp
  qed
qed

lemma scan_issues_heap:
  assumes "distinct as" and "\<forall>a \<in> set as. a < length heap" and "b < length heap"
  shows "fst (scan_issues row as (heap, out)) ! b
           = (if b \<in> set as \<and> core_id (heap ! b) = row_core_id row
              then correlate row (heap ! b) else heap ! b)"
  using assms
proof (induction as arbitrary: heap out)
  case Nil
  then show ?case by simp
next
  case (Cons a as)
  let ?heap = "heap[a := correlate row (heap ! a)]"
  from Cons.prems have a: "a \<notin> set as" "a < length heap"
    and rest: "distinct as" "\<forall>c \<in> set as. c < length heap"
    by auto
  show ?case
  proof (cases "core_id (heap ! a) = row_core_id row")
    case True
    from Cons.IH [of ?heap "out @ [a]"] rest Cons.prems(3)
    have "fst (scan_issues row as (?heap, out @ [a])) ! b
            = (if b \<in> set as \<and> core_id (?heap ! b) = row_core_id row
               then correlate row (?heap ! b) else ?heap ! b)"
      by simp
    with True a Cons.prems(3) show ?thesis
      by (cases "b = a") auto
  next
    case False
    from Cons.IH [of heap out] rest Cons.prems(3) False show ?thesis by auto
  qed
qed

lemma scan_issues_core_id:
  assumes "distinct as" and "\<forall>a \<in> set as. a < length heap" and "b < length heap"
  shows "core_id (fst (scan_issues row as (heap, out)) ! b) = core_id (heap ! b)"
  using scan_issues_heap [OF assms, of row out] by simp

subsection \<open>The outer loop\<close>

lemma find_append_cases:
  "find P (xs @ ys) = (case find P xs of None \<Rightarrow> find P ys | Some x \<Rightarrow> Some x)"
  by (induction xs) simp_all

lemma last_row_Cons:
  "last_row (row # rows) k =
     (case last_row rows k of
        Some r \<Rightarrow> Some r
      | None \<Rightarrow> if row_core_id row = k then Some row else None)"
  by (simp add: last_row_def find_append_cases split: option.splits)

lemma last_row_None_iff: "last_row rows k = None \<longleftrightarrow> k \<notin> row_core_id ` set rows"
  by (auto simp: last_row_def find_None_iff)

lemma find_Some_in: "find P xs = Some x \<Longrightarrow> x \<in> set xs \<and> P x"
  by (induction xs) (auto split: if_splits)

lemma last_row_Some: "last_row rows k = Some row \<Longrightarrow> row \<in> set rows \<and> row_core_id row = k"
  using find_Some_in [of "\<lambda>row. row_core_id row = k" "rev rows" row]
  by (simp add: last_row_def)

lemma scan_rows_length [simp]:
  "length (fst (scan_rows rows as (heap, out))) = length heap"
proof (induction rows arbitrary: heap out)
  case Nil
  then show ?case by simp
next
  case (Cons row rows)
  from Cons.IH [of "fst (scan_issues row as (heap, out))" "snd (scan_issues row as (heap, out))"]
  show ?case by simp
qed

lemma scan_rows_order:
  "snd (scan_rows rows [0..<length heap] (heap, out))
     = out @ concat (map (\<lambda>row. filter (\<lambda>a. core_id (heap ! a) = row_core_id row)
                                    [0..<length heap]) rows)"
proof (induction rows arbitrary: heap out)
  case Nil
  then show ?case by simp
next
  case (Cons row rows)
  let ?r = "scan_issues row [0..<length heap] (heap, out)"
  have key: "core_id (fst ?r ! a) = core_id (heap ! a)" if "a < length heap" for a
    using that by (intro scan_issues_core_id) simp_all
  have same: "filter (\<lambda>a. core_id (fst ?r ! a) = row_core_id row') [0..<length heap]
                = filter (\<lambda>a. core_id (heap ! a) = row_core_id row') [0..<length heap]" for row'
    by (rule filter_cong) (simp_all add: key)
  have first: "snd ?r = out @ filter (\<lambda>a. core_id (heap ! a) = row_core_id row) [0..<length heap]"
    by (intro scan_issues_order) simp_all
  have "snd (scan_rows (row # rows) [0..<length heap] (heap, out))
          = snd (scan_rows rows [0..<length (fst ?r)] (fst ?r, snd ?r))"
    by simp
  also have "\<dots> = snd ?r @ concat (map (\<lambda>row'. filter (\<lambda>a. core_id (fst ?r ! a) = row_core_id row')
                                    [0..<length (fst ?r)]) rows)"
    by (rule Cons.IH)
  also have "\<dots> = snd ?r @ concat (map (\<lambda>row'. filter (\<lambda>a. core_id (heap ! a) = row_core_id row')
                                    [0..<length heap]) rows)"
    by (simp add: same)
  also have "\<dots> = out @ concat (map (\<lambda>row'. filter (\<lambda>a. core_id (heap ! a) = row_core_id row')
                                    [0..<length heap]) (row # rows))"
    by (simp only: first) simp
  finally show ?case .
qed

lemma scan_rows_heap:
  assumes "b < length heap"
  shows "fst (scan_rows rows [0..<length heap] (heap, out)) ! b
           = (case last_row rows (core_id (heap ! b)) of
                None \<Rightarrow> heap ! b
              | Some row \<Rightarrow> correlate row (heap ! b))"
  using assms
proof (induction rows arbitrary: heap out)
  case Nil
  then show ?case by (simp add: last_row_def)
next
  case (Cons row rows)
  let ?r = "scan_issues row [0..<length heap] (heap, out)"
  have here: "fst ?r ! b = (if core_id (heap ! b) = row_core_id row
                            then correlate row (heap ! b) else heap ! b)"
    using scan_issues_heap [of "[0..<length heap]" heap b row out] Cons.prems by simp
  from here have key: "core_id (fst ?r ! b) = core_id (heap ! b)" by simp
  from Cons.IH [of "fst ?r" "snd ?r"] Cons.prems
  have "fst (scan_rows rows [0..<length heap] ?r) ! b
          = (case last_row rows (core_id (fst ?r ! b)) of
               None \<Rightarrow> fst ?r ! b
             | Some row' \<Rightarrow> correlate row' (fst ?r ! b))"
    by simp
  with here key show ?case
    by (auto simp: last_row_Cons split: option.splits)
qed

subsection \<open>The list returned\<close>

lemma clustering_order:
  "snd (clustering issues rows)
     = concat (map (\<lambda>row. filter (\<lambda>a. core_id (issues ! a) = row_core_id row)
                               [0..<length issues]) rows)"
  using scan_rows_order [of rows issues "[]"] by (simp add: clustering_def)

lemma clustering_heap:
  "a < length issues \<Longrightarrow>
     fst (clustering issues rows) ! a
       = (case last_row rows (core_id (issues ! a)) of
            None \<Rightarrow> issues ! a
          | Some row \<Rightarrow> correlate row (issues ! a))"
  using scan_rows_heap [of a issues rows "[]"] by (simp add: clustering_def)

lemma clustering_address:
  assumes "a \<in> set (snd (clustering issues rows))"
  shows "a < length issues" and "core_id (issues ! a) \<in> row_core_id ` set rows"
  using assms by (auto simp: clustering_order)

lemma clustering_core_id:
  "a < length issues \<Longrightarrow> core_id (fst (clustering issues rows) ! a) = core_id (issues ! a)"
  by (simp add: clustering_heap split: option.splits)

lemma keys_of_matching_addresses:
  "map (\<lambda>a. core_id (issues ! a)) (filter (\<lambda>a. core_id (issues ! a) = k) [0..<length issues])
     = filter (\<lambda>k'. k' = k) (map core_id issues)"
proof -
  have "filter (\<lambda>k'. k' = k) (map core_id issues)
          = filter (\<lambda>k'. k' = k) (map (\<lambda>a. core_id (issues ! a)) [0..<length issues])"
    by (simp add: map_nth flip: map_map [unfolded comp_def])
  then show ?thesis by (simp add: filter_map comp_def)
qed

lemma clustering_keys:
  "map core_id (order_issues_of (clustering issues rows))
     = concat (map (\<lambda>row. filter (\<lambda>k. k = row_core_id row) (map core_id issues)) rows)"
proof -
  have "map core_id (order_issues_of (clustering issues rows))
          = map (\<lambda>a. core_id (issues ! a)) (snd (clustering issues rows))"
    unfolding order_issues_of_def map_map comp_def
    by (rule map_cong) (simp_all add: clustering_core_id clustering_address(1))
  also have "\<dots> = concat (map (\<lambda>row. map (\<lambda>a. core_id (issues ! a))
                       (filter (\<lambda>a. core_id (issues ! a) = row_core_id row)
                          [0..<length issues])) rows)"
    by (simp add: clustering_order map_concat comp_def)
  also have "\<dots> = concat (map (\<lambda>row. filter (\<lambda>k. k = row_core_id row) (map core_id issues)) rows)"
    by (simp only: keys_of_matching_addresses)
  finally show ?thesis .
qed

lemma correlate_fields:
  "correlate row u =
     u\<lparr> cluster_id := row_cluster_id row,
        sketchcontent :=
          (case row_cluster_id row of
             None \<Rightarrow> None
           | Some c \<Rightarrow> Some
               \<lparr> sk_desc = ''Emprise du cluster'', sk_name = ''Emprise du cluster'',
                 sk_object_type = ''Polygone'',
                 sk_object_geometry = py_str (row_bounding_box row),
                 sk_contexte_lat = py_str (row_bounding_center_lat row),
                 sk_contexte_lon = py_str (row_bounding_center_lon row),
                 sk_contexte_zoom = ''17'' \<rparr>) \<rparr>"
  by (simp add: correlate_def split: option.splits)

text \<open>
  C8. For every list of issues and every answer of the spatial service:
  \<^item> the external keys of the list returned are, row after row of the answer, the keys of
    the issues received that bear the row's key, so the list returned follows the order of
    the rows and not the order received;
  \<^item> an issue is in the list returned exactly when some row bears its key, so an issue
    absent from the answer is left out;
  \<^item> each issue returned is an issue received with two attributes written: its cluster
    key is the cluster id of the row that bears its external key (the last such row,
    should the answer repeat a key: the rows write into one object), and its sketch is
    \<open>None\<close> when that cluster id is \<^verbatim>\<open>NULL\<close> and otherwise the dictionary built from the
    bounding box and the centre of the row, with zoom level 17.
\<close>

theorem clustering_follows_rows:
  "map core_id (order_issues_of (clustering issues clustered_rows))
     = concat (map (\<lambda>row. filter (\<lambda>k. k = row_core_id row) (map core_id issues))
                 clustered_rows)
   \<and> core_id ` set (order_issues_of (clustering issues clustered_rows))
       = core_id ` set issues \<inter> row_core_id ` set clustered_rows
   \<and> (\<forall>x \<in> set (order_issues_of (clustering issues clustered_rows)).
        \<exists>row u. last_row clustered_rows (core_id x) = Some row \<and> u \<in> set issues
          \<and> x = u\<lparr> cluster_id := row_cluster_id row,
                    sketchcontent :=
                      (case row_cluster_id row of
                         None \<Rightarrow> None
                       | Some c \<Rightarrow> Some
                           \<lparr> sk_desc = ''Emprise du cluster'', sk_name = ''Emprise du cluster'',
                             sk_object_type = ''Polygone'',
                             sk_object_geometry = py_str (row_bounding_box row),
                             sk_contexte_lat = py_str (row_bounding_center_lat row),
                             sk_contexte_lon = py_str (row_bounding_center_lon row),
                             sk_contexte_zoom = ''17'' \<rparr>) \<rparr>)"
proof (intro conjI ballI)
  show "map core_id (order_issues_of (clustering issues clustered_rows))
     = concat (map (\<lambda>row. filter (\<lambda>k. k = row_core_id row) (map core_id issues))
                 clustered_rows)"
    by (rule clustering_keys)
  have "set (map core_id (order_issues_of (clustering issues clustered_rows)))
          = core_id ` set issues \<inter> row_core_id ` set clustered_rows"
    unfolding clustering_keys by auto
  then show "core_id ` set (order_issues_of (clustering issues clustered_rows))
       = core_id ` set issues \<inter> row_core_id ` set clustered_rows"
    by simp
next
  fix x
  assume "x \<in> set (order_issues_of (clustering issues clustered_rows))"
  then obtain a where a: "a \<in> set (snd (clustering issues clustered_rows))"
    and x: "x = fst (clustering issues clustered_rows) ! a"
    by (auto simp: order_issues_of_def)
  from clustering_address [OF a] have len: "a < length issues"
    and "core_id (issues ! a) \<in> row_core_id ` set clustered_rows"
    by simp_all
  then obtain row where row: "last_row clustered_rows (core_id (issues ! a)) = Some row"
    using last_row_None_iff [of clustered_rows "core_id (issues ! a)"] by auto
  with x len have xr: "x = correlate row (issues ! a)" by (simp add: clustering_heap)
  then have "core_id x = core_id (issues ! a)" by simp
  with row xr len show "\<exists>row u. last_row clustered_rows (core_id x) = Some row \<and> u \<in> set issues
          \<and> x = u\<lparr> cluster_id := row_cluster_id row,
                    sketchcontent :=
                      (case row_cluster_id row of
                         None \<Rightarrow> None
                       | Some c \<Rightarrow> Some
                           \<lparr> sk_desc = ''Emprise du cluster'', sk_name = ''Emprise du cluster'',
                             sk_object_type = ''Polygone'',
                             sk_object_geometry = py_str (row_bounding_box row),
                             sk_contexte_lat = py_str (row_bounding_center_lat row),
                             sk_contexte_lon = py_str (row_bounding_center_lon row),
                             sk_contexte_zoom = ''17'' \<rparr>) \<rparr>"
    using correlate_fields [of row "issues ! a"] nth_mem [OF len] by metis
qed

theorem clustering_follows_rows_witness:
  "map core_id (order_issues_of (clustering three_issues answer)) = [Uuid ''c'', Uuid ''a'']
   \<and> map cluster_id (order_issues_of (clustering three_issues answer))
       = [Some ''K1'', Some ''K1'']"
proof -
  note facts = clustering_follows_rows [of three_issues answer]
  have keys: "map core_id (order_issues_of (clustering three_issues answer))
                = [Uuid ''c'', Uuid ''a'']"
    using facts [THEN conjunct1]
    by (simp add: three_issues_def answer_def answer_row_def eligible_row_def example_row_def
                  issue_row_to_issue_instance_def uuid_eq)
  have last: "last_row answer (Uuid ''c'') = Some (answer_row ''c'' (Some ''K1''))"
    "last_row answer (Uuid ''a'') = Some (answer_row ''a'' (Some ''K1''))"
    by (simp_all add: last_row_def answer_def answer_row_def uuid_eq)
  have member: "cluster_id x = Some ''K1''"
    if x: "x \<in> set (order_issues_of (clustering three_issues answer))" for x
  proof -
    from x have "core_id x \<in> set (map core_id (order_issues_of (clustering three_issues answer)))"
      by simp
    with keys have k: "core_id x = Uuid ''c'' \<or> core_id x = Uuid ''a''" by auto
    from facts [THEN conjunct2, THEN conjunct2, rule_format, OF x] obtain row u where
      "last_row answer (core_id x) = Some row" "cluster_id x = row_cluster_id row"
      by force
    with k last show ?thesis by (auto simp: answer_row_def)
  qed
  from keys obtain x1 x2 where two: "order_issues_of (clustering three_issues answer) = [x1, x2]"
    by auto
  with member [of x1] member [of x2]
  have "map cluster_id (order_issues_of (clustering three_issues answer))
          = [Some ''K1'', Some ''K1'']"
    by simp
  with keys show ?thesis by (rule conjI)
qed

end
